theory Spec2Isabelle
  imports Complex_Main
begin

section \<open>Data model\<close>

text \<open>
  The tables of \<^verbatim>\<open>src/models/wendy_models.py\<close> and
  \<^verbatim>\<open>src/models/geolocation_models.py\<close>. A table is the list of its rows;
  the columns kept are the ones the modelled handlers read or write. Integer
  keys are Python integers (\<open>int\<close>), a nullable foreign key is an \<open>option\<close>,
  a Float column and a DateTime are real numbers (a DateTime counts minutes), a
  status is the string the source stores.
\<close>

record user =
  u_id :: int
  user_type :: string
  u_is_active :: bool

record store =
  s_id :: int
  s_user_id :: int

record deliverer =
  d_id :: int
  d_user_id :: int
  is_online :: bool
  is_approved :: bool
  total_deliveries :: int

record order =
  o_id :: int
  o_client_id :: int
  o_store_id :: int
  o_deliverer_id :: "int option"
  o_status :: string
  o_delivery_address :: string
  o_notes :: "string option"
  o_updated_at :: real

record delivery_request =
  r_id :: int
  r_client_id :: int
  r_deliverer_id :: "int option"
  r_status :: string

record deliverer_location =
  l_deliverer_id :: int
  l_latitude :: real
  l_longitude :: real
  l_accuracy :: "real option"
  l_speed :: "real option"
  l_heading :: "real option"
  l_is_active :: bool
  l_created_at :: real

record order_tracking =
  t_order_id :: int
  t_deliverer_id :: int
  t_latitude :: real
  t_longitude :: real
  t_status :: string
  t_estimated_arrival :: real
  t_distance_remaining :: real
  t_created_at :: real

record product =
  p_id :: int
  p_store_id :: int
  p_is_active :: bool

record allowed_city =
  c_id :: int
  c_is_active :: bool
  c_delivery_fee_per_km :: real
  c_minimum_order_value :: real

record database =
  users :: "user list"
  stores :: "store list"
  deliverers :: "deliverer list"
  orders :: "order list"
  delivery_requests :: "delivery_request list"
  deliverer_locations :: "deliverer_location list"
  order_trackings :: "order_tracking list"
  allowed_cities :: "allowed_city list"
  platform_settings :: "(string \<times> real) list"
  products :: "product list"
  other_user_refs :: "int list"

text \<open>
  The field \<open>other_user_refs\<close> stands for the tables of the chat, the ratings
  and the notifications (\<^verbatim>\<open>conversations\<close>, \<^verbatim>\<open>messages\<close>, \<^verbatim>\<open>ratings\<close>,
  \<^verbatim>\<open>user_rating_stats\<close>, \<^verbatim>\<open>device_tokens\<close>): it lists the users that their
  rows reference. Each of these references is a foreign key that may not be
  NULL, and that is all the modelled handlers depend on.
\<close>

text \<open>
  The responses of the handlers. Each constructor is one error response of the
  source, named after the error kind of the specification:
  \<^item> \<open>Forbidden\<close>: 403 "Acesso negado";
  \<^item> \<open>NotFound\<close>: the 404 responses;
  \<^item> \<open>StatusRequired\<close>: 400 "Status e obrigatorio";
  \<^item> \<open>InvalidTransition from to\<close>: 400 "Transicao de from para to nao permitida";
  \<^item> \<open>InvalidState\<close>: 400 "Pedido nao esta disponivel para entrega" and
    400 "Solicitacao nao esta disponivel";
  \<^item> \<open>AlreadyAssigned\<close>: 400 "Pedido ja foi aceito por outro entregador" and
    400 "Solicitacao ja foi aceita";
  \<^item> \<open>NotEligible\<close>: 403 "Entregador deve estar online";
  \<^item> \<open>MissingField f\<close>: 400 "Campo f e obrigatorio" and the other missing-key responses;
  \<^item> \<open>DistanceExceeded m\<close>: 400 "Distancia excede o maximo permitido de m km";
  \<^item> \<open>InternalError\<close>: the 500 response of the \<^verbatim>\<open>except Exception\<close> branch,
    reached after \<^verbatim>\<open>db.session.rollback()\<close>.
  A handler returns \<open>Inl\<close> of an error, or \<open>Inr\<close> of what it committed.
\<close>

datatype error =
    Forbidden
  | NotFound
  | StatusRequired
  | InvalidTransition string string
  | InvalidState
  | AlreadyAssigned
  | NotEligible
  | MissingField string
  | DistanceExceeded real
  | InternalError

text \<open>
  An error response is returned before any write, or after a rollback: the
  database after a call is the committed one on success and the old one on error.
\<close>

definition state_after :: "error + database \<Rightarrow> database \<Rightarrow> database" where
  "state_after res db = (case res of Inl e \<Rightarrow> db | Inr db' \<Rightarrow> db')"

subsection \<open>Queries\<close>

text \<open>
  \<^verbatim>\<open>Model.query.get(key)\<close> and \<^verbatim>\<open>filter_by(...).first()\<close>: the first
  matching row of the table, \<open>None\<close> when there is none.
\<close>

definition get_user :: "database \<Rightarrow> int \<Rightarrow> user option" where
  "get_user db i = find (\<lambda>u. u_id u = i) (users db)"

definition get_order :: "database \<Rightarrow> int \<Rightarrow> order option" where
  "get_order db i = find (\<lambda>x. o_id x = i) (orders db)"

definition get_delivery_request :: "database \<Rightarrow> int \<Rightarrow> delivery_request option" where
  "get_delivery_request db i = find (\<lambda>r. r_id r = i) (delivery_requests db)"

definition store_of_user :: "database \<Rightarrow> int \<Rightarrow> store option" where
  "store_of_user db uid = find (\<lambda>s. s_user_id s = uid) (stores db)"

definition deliverer_of_user :: "database \<Rightarrow> int \<Rightarrow> deliverer option" where
  "deliverer_of_user db uid = find (\<lambda>d. d_user_id d = uid) (deliverers db)"

definition get_deliverer :: "database \<Rightarrow> int \<Rightarrow> deliverer option" where
  "get_deliverer db i = find (\<lambda>d. d_id d = i) (deliverers db)"

definition get_store :: "database \<Rightarrow> int \<Rightarrow> store option" where
  "get_store db i = find (\<lambda>s. s_id s = i) (stores db)"

definition get_city :: "database \<Rightarrow> int \<Rightarrow> allowed_city option" where
  "get_city db i = find (\<lambda>c. c_id c = i) (allowed_cities db)"

text \<open>
  Python's truth value of a nullable integer column, as in
  \<^verbatim>\<open>if order.deliverer_id:\<close>: \<open>None\<close> and \<open>0\<close> are false.
\<close>

definition truthy :: "int option \<Rightarrow> bool" where
  "truthy v = (case v of None \<Rightarrow> False | Some n \<Rightarrow> n \<noteq> 0)"

text \<open>
  Assigning to the attributes of a fetched row and committing rewrites the row
  with that primary key.
\<close>

definition update_order :: "int \<Rightarrow> (order \<Rightarrow> order) \<Rightarrow> database \<Rightarrow> database" where
  "update_order i f db = db\<lparr>orders := map (\<lambda>x. if o_id x = i then f x else x) (orders db)\<rparr>"

definition update_delivery_request ::
  "int \<Rightarrow> (delivery_request \<Rightarrow> delivery_request) \<Rightarrow> database \<Rightarrow> database" where
  "update_delivery_request i f db =
     db\<lparr>delivery_requests := map (\<lambda>r. if r_id r = i then f r else r) (delivery_requests db)\<rparr>"

section \<open>Order status updates (\<^verbatim>\<open>routes/orders.py\<close>)\<close>

text \<open>
  The dictionary \<^verbatim>\<open>valid_transitions\<close> of \<^verbatim>\<open>update_order_status\<close>, as the
  association list of its literal; \<^verbatim>\<open>d.get(k, default)\<close> is a lookup with a
  default.
\<close>

definition valid_transitions :: "(string \<times> (string \<times> string list) list) list" where
  "valid_transitions =
    [(''store'',
        [(''pending'', [''accepted'', ''cancelled'']),
         (''accepted'', [''preparing'']),
         (''preparing'', [''ready''])]),
     (''deliverer'',
        [(''ready'', [''delivering'']),
         (''delivering'', [''delivered''])]),
     (''admin'',
        [(''pending'', [''accepted'', ''cancelled'']),
         (''accepted'', [''preparing'', ''cancelled'']),
         (''preparing'', [''ready'', ''cancelled'']),
         (''ready'', [''delivering'', ''cancelled'']),
         (''delivering'', [''delivered'', ''cancelled''])])]"

definition dict_get :: "('k \<times> 'v) list \<Rightarrow> 'k \<Rightarrow> 'v \<Rightarrow> 'v" where
  "dict_get d k dflt = (case map_of d k of None \<Rightarrow> dflt | Some v \<Rightarrow> v)"

definition current_status_transitions :: "string \<Rightarrow> string \<Rightarrow> string list" where
  "current_status_transitions role cur = dict_get (dict_get valid_transitions role []) cur []"

text \<open>
  The permission block of \<^verbatim>\<open>update_order_status\<close>: the store that owns the
  order, the deliverer assigned to it, or an administrator.
\<close>

definition has_permission :: "database \<Rightarrow> user \<Rightarrow> int \<Rightarrow> order \<Rightarrow> bool" where
  "has_permission db usr user_id ord =
     (if user_type usr = ''store'' then
        (case store_of_user db user_id of
           None \<Rightarrow> False
         | Some st \<Rightarrow> o_store_id ord = s_id st)
      else if user_type usr = ''deliverer'' \<and> o_deliverer_id ord = Some user_id then True
      else if user_type usr = ''admin'' then True
      else False)"

text \<open>
  \<^verbatim>\<open>update_order_status(order_id)\<close>, called by the user \<open>user_id\<close> of the token
  with the sanitised \<^verbatim>\<open>status\<close> of the body at time \<open>now\<close>. The order is looked
  up first, then the status is required to be non-empty; the attribute
  \<^verbatim>\<open>user.user_type\<close> of a missing user raises, which the handler answers
  with the 500 response.
\<close>

definition update_order_status ::
  "int \<Rightarrow> int \<Rightarrow> string \<Rightarrow> real \<Rightarrow> database \<Rightarrow> error + database" where
  "update_order_status user_id order_id new_status now db =
     (case get_order db order_id of
        None \<Rightarrow> Inl NotFound
      | Some ord \<Rightarrow>
          if new_status = [] then Inl StatusRequired
          else (case get_user db user_id of
             None \<Rightarrow> Inl InternalError
           | Some usr \<Rightarrow>
               if \<not> has_permission db usr user_id ord then Inl Forbidden
               else if new_status \<notin> set (current_status_transitions (user_type usr) (o_status ord))
               then Inl (InvalidTransition (o_status ord) new_status)
               else Inr (update_order order_id
                          (\<lambda>x. x\<lparr>o_status := new_status, o_updated_at := now\<rparr>) db)))"

text \<open>
  \<^verbatim>\<open>accept_delivery(order_id)\<close>: a deliverer claims an order. The status check
  comes before the check of the assignment.
\<close>

definition accept_delivery :: "int \<Rightarrow> int \<Rightarrow> real \<Rightarrow> database \<Rightarrow> error + database" where
  "accept_delivery user_id order_id now db =
     (case get_user db user_id of
        None \<Rightarrow> Inl Forbidden
      | Some usr \<Rightarrow>
          if user_type usr \<noteq> ''deliverer'' then Inl Forbidden
          else (case get_order db order_id of
             None \<Rightarrow> Inl NotFound
           | Some ord \<Rightarrow>
               if o_status ord \<noteq> ''ready'' then Inl InvalidState
               else if truthy (o_deliverer_id ord) then Inl AlreadyAssigned
               else Inr (update_order order_id
                          (\<lambda>x. x\<lparr>o_deliverer_id := Some user_id, o_status := ''delivering'',
                                 o_updated_at := now\<rparr>) db)))"

text \<open>
  The same handler in its two steps. The server runs two workers
  (\<^verbatim>\<open>gunicorn_config.py\<close>, \<^verbatim>\<open>workers = 2\<close>), so the steps of two requests can
  interleave. The first step is the reads and checks of lines 363 to 387,
  against the database of that moment. The second is the commit of lines 389 to
  393: an \<^verbatim>\<open>UPDATE\<close> of the row with the key of the order, with no condition on
  what the row holds by then.
\<close>

definition accept_delivery_check :: "int \<Rightarrow> int \<Rightarrow> database \<Rightarrow> error + unit" where
  "accept_delivery_check user_id order_id db =
     (case get_user db user_id of
        None \<Rightarrow> Inl Forbidden
      | Some usr \<Rightarrow>
          if user_type usr \<noteq> ''deliverer'' then Inl Forbidden
          else (case get_order db order_id of
             None \<Rightarrow> Inl NotFound
           | Some ord \<Rightarrow>
               if o_status ord \<noteq> ''ready'' then Inl InvalidState
               else if truthy (o_deliverer_id ord) then Inl AlreadyAssigned
               else Inr ()))"

definition accept_delivery_write :: "int \<Rightarrow> int \<Rightarrow> real \<Rightarrow> database \<Rightarrow> database" where
  "accept_delivery_write user_id order_id now db =
     update_order order_id
       (\<lambda>x. x\<lparr>o_deliverer_id := Some user_id, o_status := ''delivering'',
              o_updated_at := now\<rparr>) db"

section \<open>Delivery requests (\<^verbatim>\<open>routes/deliverers.py\<close>)\<close>

text \<open>
  \<^verbatim>\<open>accept_delivery_request(request_id)\<close>: a deliverer claims an ad-hoc
  delivery request. The deliverer profile must exist and be online; the flag
  \<^verbatim>\<open>is_approved\<close> is not read.
\<close>

definition accept_delivery_request :: "int \<Rightarrow> int \<Rightarrow> database \<Rightarrow> error + database" where
  "accept_delivery_request user_id request_id db =
     (case get_user db user_id of
        None \<Rightarrow> Inl Forbidden
      | Some usr \<Rightarrow>
          if user_type usr \<noteq> ''deliverer'' then Inl Forbidden
          else (case deliverer_of_user db user_id of
             None \<Rightarrow> Inl NotEligible
           | Some dlv \<Rightarrow>
               if \<not> is_online dlv then Inl NotEligible
               else (case get_delivery_request db request_id of
                  None \<Rightarrow> Inl NotFound
                | Some req \<Rightarrow>
                    if r_status req \<noteq> ''pending'' then Inl InvalidState
                    else if truthy (r_deliverer_id req) then Inl AlreadyAssigned
                    else Inr (update_delivery_request request_id
                               (\<lambda>r. r\<lparr>r_deliverer_id := Some user_id, r_status := ''accepted''\<rparr>)
                               db))))"

section \<open>Account deletion by an administrator (\<^verbatim>\<open>routes/admin.py\<close>)\<close>

definition admin_required :: "database \<Rightarrow> int \<Rightarrow> bool" where
  "admin_required db caller =
     (case get_user db caller of None \<Rightarrow> False | Some usr \<Rightarrow> user_type usr = ''admin'')"

text \<open>
  Deleting a row through the session (\<^verbatim>\<open>db.session.delete\<close>) makes the
  session write to the rows that reference it through a relationship: it sets
  their foreign key to NULL, unless they are deleted in the same commit. Where
  that column may not be NULL the commit raises, the handler rolls back and
  answers with the 500 response. A user is referenced by a column that may not
  be NULL from the orders and the delivery requests it placed, from its location
  and tracking rows, from its store and its deliverer profile, and from the
  tables that \<open>other_user_refs\<close> stands for.
\<close>

definition required_user_refs :: "database \<Rightarrow> int list" where
  "required_user_refs db =
     map o_client_id (orders db) @ map r_client_id (delivery_requests db)
     @ map l_deliverer_id (deliverer_locations db) @ map t_deliverer_id (order_trackings db)
     @ other_user_refs db"

text \<open>
  The references to a user that may be NULL, the deliverer of an order and of a
  delivery request, are set to NULL when the user is deleted. The column
  \<^verbatim>\<open>updated_at\<close> of an order has \<^verbatim>\<open>onupdate=datetime.utcnow\<close>, so a rewritten
  order row takes the time of the call.
\<close>

definition release_user :: "int \<Rightarrow> real \<Rightarrow> database \<Rightarrow> database" where
  "release_user uid now db =
     db\<lparr>orders :=
          map (\<lambda>x. if o_deliverer_id x = Some uid
                    then x\<lparr>o_deliverer_id := None, o_updated_at := now\<rparr> else x) (orders db),
        delivery_requests :=
          map (\<lambda>r. if r_deliverer_id r = Some uid then r\<lparr>r_deliverer_id := None\<rparr> else r)
              (delivery_requests db)\<rparr>"

text \<open>
  \<^verbatim>\<open>delete_deliverer(deliverer_id)\<close>: the orders of the deliverer that are
  accepted, preparing, ready or delivering lose their deliverer and go back to
  \<^verbatim>\<open>pending\<close>; then the profile and its user are deleted. Deleting the
  missing user of a profile raises. The commit raises when the user is still
  referenced by a column that may not be NULL: by a row of
  \<open>required_user_refs\<close>, by a store, or by another deliverer profile. The body
  of the request is a JSON object, as the handler expects.
\<close>

definition delete_deliverer :: "int \<Rightarrow> int \<Rightarrow> real \<Rightarrow> database \<Rightarrow> error + database" where
  "delete_deliverer caller deliverer_id now db =
     (if \<not> admin_required db caller then Inl Forbidden
      else (case get_deliverer db deliverer_id of
         None \<Rightarrow> Inl NotFound
       | Some dlv \<Rightarrow>
           (case get_user db (d_user_id dlv) of
              None \<Rightarrow> Inl InternalError
            | Some usr \<Rightarrow>
                if u_id usr \<in> set (required_user_refs db)
                   \<or> u_id usr \<in> set (map s_user_id (stores db))
                   \<or> u_id usr \<in> set (map d_user_id
                                         (filter (\<lambda>d. d_id d \<noteq> d_id dlv) (deliverers db)))
                then Inl InternalError
                else Inr (release_user (u_id usr) now
                      (db\<lparr>orders :=
                           map (\<lambda>x. if o_deliverer_id x = Some (d_user_id dlv)
                                       \<and> o_status x \<in> set [''accepted'', ''preparing'', ''ready'', ''delivering'']
                                     then x\<lparr>o_deliverer_id := None, o_status := ''pending'',
                                            o_updated_at := now\<rparr>
                                     else x) (orders db),
                         deliverers := filter (\<lambda>d. d_id d \<noteq> d_id dlv) (deliverers db),
                         users := filter (\<lambda>u. u_id u \<noteq> u_id usr) (users db)\<rparr>)))))"

text \<open>
  \<^verbatim>\<open>delete_store(store_id)\<close>: the products of the store are deactivated and
  its pending orders are cancelled, then the store and its user are deleted. The
  store of an order and of a product may not be NULL, so the commit raises when
  the store has an order or a product, and when the user is still referenced by
  a column that may not be NULL: by a row of \<open>required_user_refs\<close>, by another
  store, or by a deliverer profile.
\<close>

definition delete_store :: "int \<Rightarrow> int \<Rightarrow> real \<Rightarrow> database \<Rightarrow> error + database" where
  "delete_store caller store_id now db =
     (if \<not> admin_required db caller then Inl Forbidden
      else (case get_store db store_id of
         None \<Rightarrow> Inl NotFound
       | Some st \<Rightarrow>
           (case get_user db (s_user_id st) of
              None \<Rightarrow> Inl InternalError
            | Some usr \<Rightarrow>
                if s_id st \<in> set (map o_store_id (orders db))
                   \<or> s_id st \<in> set (map p_store_id (products db))
                   \<or> u_id usr \<in> set (required_user_refs db)
                   \<or> u_id usr \<in> set (map s_user_id
                                         (filter (\<lambda>s. s_id s \<noteq> s_id st) (stores db)))
                   \<or> u_id usr \<in> set (map d_user_id (deliverers db))
                then Inl InternalError
                else Inr (release_user (u_id usr) now
                      (db\<lparr>products :=
                           map (\<lambda>p. if p_store_id p = s_id st then p\<lparr>p_is_active := False\<rparr>
                                     else p) (products db),
                         orders :=
                           map (\<lambda>x. if o_store_id x = s_id st \<and> o_status x = ''pending''
                                     then x\<lparr>o_status := ''cancelled'', o_updated_at := now\<rparr>
                                     else x) (orders db),
                         stores := filter (\<lambda>s. s_id s \<noteq> s_id st) (stores db),
                         users := filter (\<lambda>u. u_id u \<noteq> u_id usr) (users db)\<rparr>)))))"

section \<open>Delivery fee (\<^verbatim>\<open>routes/admin.py\<close>)\<close>

text \<open>
  \<^verbatim>\<open>get_platform_setting(key, default)\<close>. The source stores a setting as text
  and the callers apply \<^verbatim>\<open>float\<close> to it; the table of the model holds the
  number.
\<close>

definition get_platform_setting :: "database \<Rightarrow> string \<Rightarrow> real \<Rightarrow> real" where
  "get_platform_setting db key default_value = dict_get (platform_settings db) key default_value"

record fee_request =
  fr_distance_km :: "real option"
  fr_city_id :: "int option"

record fee_response =
  resp_distance_km :: real
  resp_fee_per_km :: real
  resp_calculated_fee :: real
  resp_minimum_fee :: real
  resp_final_delivery_fee :: real
  resp_within_delivery_area :: bool

text \<open>
  \<^verbatim>\<open>calculate_delivery_fee()\<close>. A body without \<^verbatim>\<open>distance_km\<close> is refused
  (a distance that \<^verbatim>\<open>float\<close> refuses is outside the type of the body);
  the rate is the city's when \<^verbatim>\<open>city_id\<close> is true in Python's sense (present
  and not \<open>0\<close>) and names an existing, active city, and the platform's otherwise.
\<close>

definition calculate_delivery_fee :: "fee_request \<Rightarrow> database \<Rightarrow> error + fee_response" where
  "calculate_delivery_fee data db =
     (case fr_distance_km data of
        None \<Rightarrow> Inl (MissingField ''distance_km'')
      | Some distance \<Rightarrow>
          (let rate =
                 (case fr_city_id data of
                    None \<Rightarrow> get_platform_setting db ''default_delivery_fee_per_km'' 2.0
                  | Some city_id \<Rightarrow>
                      if city_id = 0
                      then get_platform_setting db ''default_delivery_fee_per_km'' 2.0
                      else (case get_city db city_id of
                         Some city \<Rightarrow>
                           if c_is_active city then c_delivery_fee_per_km city
                           else get_platform_setting db ''default_delivery_fee_per_km'' 2.0
                       | None \<Rightarrow> get_platform_setting db ''default_delivery_fee_per_km'' 2.0));
               calculated = distance * rate;
               minimum = get_platform_setting db ''minimum_delivery_fee'' 5.0;
               maximum_distance = get_platform_setting db ''maximum_delivery_distance'' 10.0
           in if distance > maximum_distance then Inl (DistanceExceeded maximum_distance)
              else Inr \<lparr>resp_distance_km = distance, resp_fee_per_km = rate,
                        resp_calculated_fee = calculated, resp_minimum_fee = minimum,
                        resp_final_delivery_fee = max calculated minimum,
                        resp_within_delivery_area = (distance \<le> maximum_distance)\<rparr>))"

section \<open>Geolocation (\<^verbatim>\<open>routes/geolocation.py\<close>)\<close>

definition radians :: "real \<Rightarrow> real" where
  "radians x = x * pi / 180"

text \<open>\<^verbatim>\<open>math.atan2(y, x)\<close>: the angle of the point \<open>(x, y)\<close>, in \<open>(-pi, pi]\<close>.\<close>

definition atan2 :: "real \<Rightarrow> real \<Rightarrow> real" where
  "atan2 y x =
     (if x > 0 then arctan (y / x)
      else if x < 0 then (if y \<ge> 0 then arctan (y / x) + pi else arctan (y / x) - pi)
      else if y > 0 then pi / 2
      else if y < 0 then - pi / 2
      else 0)"

definition calculate_distance :: "real \<Rightarrow> real \<Rightarrow> real \<Rightarrow> real \<Rightarrow> real" where
  "calculate_distance lat1 lon1 lat2 lon2 =
     (let R = 6371;
          dlat = radians (lat2 - lat1);
          dlon = radians (lon2 - lon1);
          a = sin (dlat / 2) * sin (dlat / 2)
              + cos (radians lat1) * cos (radians lat2) * sin (dlon / 2) * sin (dlon / 2);
          c = 2 * atan2 (sqrt a) (sqrt (1 - a))
      in R * c)"

text \<open>
  \<^verbatim>\<open>estimate_arrival_time(distance_km, avg_speed_kmh=25)\<close> at the time \<open>now\<close>
  (in minutes); every caller leaves the speed at its default.
\<close>

definition estimate_arrival_time :: "real \<Rightarrow> real \<Rightarrow> real" where
  "estimate_arrival_time distance_km now =
     (if distance_km \<le> 0 then now else now + (distance_km / 25) * 60)"

record location_data =
  ld_latitude :: "real option"
  ld_longitude :: "real option"
  ld_accuracy :: "real option"
  ld_speed :: "real option"
  ld_heading :: "real option"

text \<open>The example destination written in \<^verbatim>\<open>update_deliverer_location\<close>.\<close>

definition dest_lat :: real where "dest_lat = - 23.5505"
definition dest_lon :: real where "dest_lon = - 46.6333"

definition active_orders :: "database \<Rightarrow> int \<Rightarrow> order list" where
  "active_orders db user_id =
     filter (\<lambda>x. o_deliverer_id x = Some user_id \<and> o_status x = ''delivering'') (orders db)"

definition tracking_row :: "int \<Rightarrow> real \<Rightarrow> real \<Rightarrow> real \<Rightarrow> order \<Rightarrow> order_tracking" where
  "tracking_row user_id lat lon now ord =
     (let distance = calculate_distance lat lon dest_lat dest_lon
      in \<lparr>t_order_id = o_id ord, t_deliverer_id = user_id, t_latitude = lat, t_longitude = lon,
          t_status = ''in_transit'', t_estimated_arrival = estimate_arrival_time distance now,
          t_distance_remaining = distance, t_created_at = now\<rparr>)"

text \<open>
  \<^verbatim>\<open>update_deliverer_location()\<close>, called by the user \<open>user_id\<close> of the token at
  time \<open>now\<close>. The body carries numbers or lacks a field (a value that
  \<^verbatim>\<open>float\<close> refuses is outside the type). The active rows of the deliverer
  are switched off, one new row is added (\<^verbatim>\<open>is_active\<close> defaults to true), and
  one tracking row is added for each order of the deliverer in status
  \<^verbatim>\<open>delivering\<close>. The surrogate keys of the two tables are not modelled.
\<close>

definition update_deliverer_location ::
  "int \<Rightarrow> location_data \<Rightarrow> real \<Rightarrow> database \<Rightarrow> error + database" where
  "update_deliverer_location user_id data now db =
     (case get_user db user_id of
        None \<Rightarrow> Inl Forbidden
      | Some usr \<Rightarrow>
          if user_type usr \<noteq> ''deliverer'' then Inl Forbidden
          else (case deliverer_of_user db user_id of
             None \<Rightarrow> Inl NotEligible
           | Some dlv \<Rightarrow>
               if \<not> is_online dlv then Inl NotEligible
               else (case ld_latitude data of
                  None \<Rightarrow> Inl (MissingField ''latitude'')
                | Some lat \<Rightarrow>
                    (case ld_longitude data of
                       None \<Rightarrow> Inl (MissingField ''longitude'')
                     | Some lon \<Rightarrow>
                         Inr (db\<lparr>deliverer_locations :=
                                    map (\<lambda>l. if l_deliverer_id l = user_id \<and> l_is_active l
                                              then l\<lparr>l_is_active := False\<rparr> else l)
                                        (deliverer_locations db)
                                    @ [\<lparr>l_deliverer_id = user_id, l_latitude = lat,
                                        l_longitude = lon, l_accuracy = ld_accuracy data,
                                        l_speed = ld_speed data, l_heading = ld_heading data,
                                        l_is_active = True, l_created_at = now\<rparr>],
                                  order_trackings :=
                                    order_trackings db
                                    @ map (tracking_row user_id lat lon now)
                                          (active_orders db user_id)\<rparr>)))))"

record tracking_view =
  tv_order_id :: int
  tv_status :: string
  tv_latest_tracking :: "order_tracking option"
  tv_current_location :: "deliverer_location option"
  tv_tracking_history :: "order_tracking list"

text \<open>\<^verbatim>\<open>order_by(OrderTracking.created_at.desc())\<close> on the rows of an order.\<close>

definition trackings_newest_first :: "database \<Rightarrow> int \<Rightarrow> order_tracking list" where
  "trackings_newest_first db order_id =
     rev (sort_key t_created_at (filter (\<lambda>t. t_order_id t = order_id) (order_trackings db)))"

text \<open>The access block of \<^verbatim>\<open>track_order\<close>.\<close>

definition has_access :: "database \<Rightarrow> user \<Rightarrow> int \<Rightarrow> order \<Rightarrow> bool" where
  "has_access db usr user_id ord =
     (if user_type usr = ''client'' \<and> o_client_id ord = user_id then True
      else if user_type usr = ''store'' then
        (case store_of_user db user_id of
           None \<Rightarrow> False
         | Some st \<Rightarrow> o_store_id ord = s_id st)
      else if user_type usr = ''deliverer'' \<and> o_deliverer_id ord = Some user_id then True
      else if user_type usr = ''admin'' then True
      else False)"

text \<open>\<^verbatim>\<open>track_order(order_id)\<close>: a read, the database is not changed.\<close>

definition track_order :: "int \<Rightarrow> int \<Rightarrow> database \<Rightarrow> error + tracking_view" where
  "track_order user_id order_id db =
     (case get_order db order_id of
        None \<Rightarrow> Inl NotFound
      | Some ord \<Rightarrow>
          (case get_user db user_id of
             None \<Rightarrow> Inl InternalError
           | Some usr \<Rightarrow>
               if \<not> has_access db usr user_id ord then Inl Forbidden
               else Inr \<lparr>tv_order_id = order_id, tv_status = o_status ord,
                         tv_latest_tracking =
                           (case trackings_newest_first db order_id of
                              [] \<Rightarrow> None | t # ts \<Rightarrow> Some t),
                         tv_current_location =
                           (case o_deliverer_id ord of
                              None \<Rightarrow> None
                            | Some d \<Rightarrow>
                                if d = 0 then None
                                else find (\<lambda>l. l_deliverer_id l = d \<and> l_is_active l)
                                       (deliverer_locations db)),
                         tv_tracking_history = take 10 (trackings_newest_first db order_id)\<rparr>))"

section \<open>The transition table and the lifecycle graph of the specification\<close>

text \<open>
  The table of section 4.1 of the specification, written from its words: what a
  store may do, what a deliverer may do, and for an administrator all of that
  plus cancellation from any active status.
\<close>

definition spec_store_table :: "string \<Rightarrow> string set" where
  "spec_store_table cur =
     (if cur = ''pending'' then {''accepted'', ''cancelled''}
      else if cur = ''accepted'' then {''preparing''}
      else if cur = ''preparing'' then {''ready''}
      else {})"

definition spec_deliverer_table :: "string \<Rightarrow> string set" where
  "spec_deliverer_table cur =
     (if cur = ''ready'' then {''delivering''}
      else if cur = ''delivering'' then {''delivered''}
      else {})"

definition active_status :: "string \<Rightarrow> bool" where
  "active_status s = (s \<in> set [''pending'', ''accepted'', ''preparing'', ''ready'', ''delivering''])"

definition spec_table :: "string \<Rightarrow> string \<Rightarrow> string set" where
  "spec_table role cur =
     (if role = ''store'' then spec_store_table cur
      else if role = ''deliverer'' then spec_deliverer_table cur
      else if role = ''admin'' then
        spec_store_table cur \<union> spec_deliverer_table cur
        \<union> (if active_status cur then {''cancelled''} else {})
      else {})"

text \<open>
  The lifecycle graph of section 4.1:
  pending, accepted, preparing, ready, delivering, delivered in this order,
  and cancelled reachable from every status that is not terminal.
\<close>

definition graph_edge :: "string \<Rightarrow> string \<Rightarrow> bool" where
  "graph_edge s s' =
     ((s, s') \<in> set [(''pending'', ''accepted''), (''accepted'', ''preparing''),
                      (''preparing'', ''ready''), (''ready'', ''delivering''),
                      (''delivering'', ''delivered'')]
      \<or> (active_status s \<and> s' = ''cancelled''))"

text \<open>
  What deleting a deliverer does to the orders it had: back to pending from
  accepted, preparing, ready or delivering.
\<close>

definition requeue_edge :: "string \<Rightarrow> string \<Rightarrow> bool" where
  "requeue_edge s s' =
     (s \<in> set [''accepted'', ''preparing'', ''ready'', ''delivering''] \<and> s' = ''pending'')"

definition graph_step :: "string option \<Rightarrow> string option \<Rightarrow> bool" where
  "graph_step a b =
     (case a of
        None \<Rightarrow> b = None
      | Some s \<Rightarrow> (case b of None \<Rightarrow> False | Some s' \<Rightarrow> s = s' \<or> graph_edge s s'))"

definition lifecycle_step :: "string option \<Rightarrow> string option \<Rightarrow> bool" where
  "lifecycle_step a b =
     (case a of
        None \<Rightarrow> b = None
      | Some s \<Rightarrow>
          (case b of
             None \<Rightarrow> False
           | Some s' \<Rightarrow> s = s' \<or> graph_edge s s' \<or> requeue_edge s s'))"

section \<open>Sequences of calls\<close>

text \<open>Claims of jobs by deliverers, one after the other.\<close>

datatype claim = ClaimOrder int int real | ClaimRequest int int

definition claim_step :: "claim \<Rightarrow> database \<Rightarrow> database" where
  "claim_step c db =
     (case c of
        ClaimOrder user_id order_id now \<Rightarrow> state_after (accept_delivery user_id order_id now db) db
      | ClaimRequest user_id request_id \<Rightarrow>
          state_after (accept_delivery_request user_id request_id db) db)"

definition run_claims :: "claim list \<Rightarrow> database \<Rightarrow> database" where
  "run_claims cs db = fold claim_step cs db"

text \<open>
  The steps of claims of orders as the two workers run them: a read of a claim,
  which is remembered when its checks pass, and the commit of a claim whose
  checks have passed. A claim handled alone is its read followed by its commit.
\<close>

datatype claim_event = ReadOrder int int | CommitOrder int int real

definition event_step ::
  "claim_event \<Rightarrow> database \<times> (int \<times> int) list \<Rightarrow> database \<times> (int \<times> int) list" where
  "event_step ev st =
     (case st of (db, passed) \<Rightarrow>
        (case ev of
           ReadOrder user_id order_id \<Rightarrow>
             (case accept_delivery_check user_id order_id db of
                Inl e \<Rightarrow> (db, passed)
              | Inr ok \<Rightarrow> (db, (user_id, order_id) # passed))
         | CommitOrder user_id order_id now \<Rightarrow>
             if (user_id, order_id) \<in> set passed
             then (accept_delivery_write user_id order_id now db,
                   remove1 (user_id, order_id) passed)
             else (db, passed)))"

definition run_events ::
  "claim_event list \<Rightarrow> database \<times> (int \<times> int) list \<Rightarrow> database \<times> (int \<times> int) list" where
  "run_events evs st = fold event_step evs st"

definition order_bound_to :: "database \<Rightarrow> int \<Rightarrow> int \<Rightarrow> bool" where
  "order_bound_to db order_id d =
     (map_option o_deliverer_id (get_order db order_id) = Some (Some d) \<and> d \<noteq> 0)"

definition request_bound_to :: "database \<Rightarrow> int \<Rightarrow> int \<Rightarrow> bool" where
  "request_bound_to db request_id d =
     (map_option r_deliverer_id (get_delivery_request db request_id) = Some (Some d) \<and> d \<noteq> 0)"

text \<open>
  The operations that write the status of an order: status updates by any role,
  claims, and the deletion of a deliverer or of a store by an administrator.
\<close>

datatype operation =
    UpdateOrderStatus int int string real
  | AcceptDelivery int int real
  | DeleteDeliverer int int real
  | DeleteStore int int real

definition step :: "operation \<Rightarrow> database \<Rightarrow> database" where
  "step oper db =
     (case oper of
        UpdateOrderStatus user_id order_id new_status now \<Rightarrow>
          state_after (update_order_status user_id order_id new_status now db) db
      | AcceptDelivery user_id order_id now \<Rightarrow>
          state_after (accept_delivery user_id order_id now db) db
      | DeleteDeliverer caller deliverer_id now \<Rightarrow>
          state_after (delete_deliverer caller deliverer_id now db) db
      | DeleteStore caller store_id now \<Rightarrow>
          state_after (delete_store caller store_id now db) db)"

text \<open>The databases seen over a run: the first one, then the one after each operation.\<close>

fun states :: "operation list \<Rightarrow> database \<Rightarrow> database list" where
  "states [] db = [db]"
| "states (oper # opers) db = db # states opers (step oper db)"

definition order_status :: "database \<Rightarrow> int \<Rightarrow> string option" where
  "order_status db order_id = map_option o_status (get_order db order_id)"

definition status_history :: "int \<Rightarrow> operation list \<Rightarrow> database \<Rightarrow> string option list" where
  "status_history order_id opers db = map (\<lambda>d. order_status d order_id) (states opers db)"

text \<open>Location updates, one after the other: caller, body and time of each.\<close>

definition location_step :: "int \<times> location_data \<times> real \<Rightarrow> database \<Rightarrow> database" where
  "location_step c db =
     (case c of (user_id, data, now) \<Rightarrow>
        state_after (update_deliverer_location user_id data now db) db)"

definition run_location_updates ::
  "(int \<times> location_data \<times> real) list \<Rightarrow> database \<Rightarrow> database" where
  "run_location_updates cs db = fold location_step cs db"

definition active_rows :: "database \<Rightarrow> int \<Rightarrow> deliverer_location list" where
  "active_rows db uid =
     filter (\<lambda>l. l_deliverer_id l = uid \<and> l_is_active l) (deliverer_locations db)"

section \<open>An example database\<close>

text \<open>
  An administrator (user 1), two stores (store 5 of user 2, store 6 of user 3),
  a client (user 4) and three deliverers: user 7 is online and approved, user 8
  is online and no longer approved, user 9 is approved and offline.
\<close>

definition example_orders :: "order list" where
  "example_orders =
     [\<lparr>o_id = 10, o_client_id = 4, o_store_id = 5, o_deliverer_id = None,
       o_status = ''pending'', o_delivery_address = ''Rua A 1'', o_notes = None, o_updated_at = 0\<rparr>,
      \<lparr>o_id = 11, o_client_id = 4, o_store_id = 5, o_deliverer_id = None,
       o_status = ''preparing'', o_delivery_address = ''Rua A 1'', o_notes = None, o_updated_at = 0\<rparr>,
      \<lparr>o_id = 12, o_client_id = 4, o_store_id = 5, o_deliverer_id = None,
       o_status = ''ready'', o_delivery_address = ''Rua A 1'', o_notes = None, o_updated_at = 0\<rparr>,
      \<lparr>o_id = 13, o_client_id = 4, o_store_id = 5, o_deliverer_id = Some 7,
       o_status = ''delivering'', o_delivery_address = ''Rua A 1'', o_notes = None, o_updated_at = 0\<rparr>,
      \<lparr>o_id = 14, o_client_id = 4, o_store_id = 6, o_deliverer_id = Some 7,
       o_status = ''delivering'', o_delivery_address = ''Avenida B 2'', o_notes = None,
       o_updated_at = 0\<rparr>,
      \<lparr>o_id = 15, o_client_id = 4, o_store_id = 5, o_deliverer_id = Some 9,
       o_status = ''ready'', o_delivery_address = ''Rua A 1'', o_notes = None, o_updated_at = 0\<rparr>]"

definition example_db :: database where
  "example_db =
     \<lparr>users =
        [\<lparr>u_id = 1, user_type = ''admin'', u_is_active = True\<rparr>,
         \<lparr>u_id = 2, user_type = ''store'', u_is_active = True\<rparr>,
         \<lparr>u_id = 3, user_type = ''store'', u_is_active = True\<rparr>,
         \<lparr>u_id = 4, user_type = ''client'', u_is_active = True\<rparr>,
         \<lparr>u_id = 7, user_type = ''deliverer'', u_is_active = True\<rparr>,
         \<lparr>u_id = 8, user_type = ''deliverer'', u_is_active = False\<rparr>,
         \<lparr>u_id = 9, user_type = ''deliverer'', u_is_active = True\<rparr>],
      stores = [\<lparr>s_id = 5, s_user_id = 2\<rparr>, \<lparr>s_id = 6, s_user_id = 3\<rparr>],
      deliverers =
        [\<lparr>d_id = 1, d_user_id = 7, is_online = True, is_approved = True, total_deliveries = 0\<rparr>,
         \<lparr>d_id = 2, d_user_id = 8, is_online = True, is_approved = False, total_deliveries = 0\<rparr>,
         \<lparr>d_id = 3, d_user_id = 9, is_online = False, is_approved = True, total_deliveries = 0\<rparr>],
      orders = example_orders,
      delivery_requests =
        [\<lparr>r_id = 20, r_client_id = 4, r_deliverer_id = None, r_status = ''pending''\<rparr>,
         \<lparr>r_id = 21, r_client_id = 4, r_deliverer_id = Some 7, r_status = ''accepted''\<rparr>],
      deliverer_locations = [],
      order_trackings = [],
      allowed_cities =
        [\<lparr>c_id = 1, c_is_active = True, c_delivery_fee_per_km = 3, c_minimum_order_value = 20\<rparr>,
         \<lparr>c_id = 2, c_is_active = False, c_delivery_fee_per_km = 4, c_minimum_order_value = 25\<rparr>],
      platform_settings = [(''maximum_delivery_distance'', 10)],
      products = [\<lparr>p_id = 30, p_store_id = 5, p_is_active = True\<rparr>],
      other_user_refs = []\<rparr>"

section \<open>The rules of the specification for access and for the fee rate\<close>

text \<open>
  The ownership rule as the claim words it: the caller is an administrator, the
  store that owns the order (the order's store is the caller's store), or the
  deliverer assigned to the order.
\<close>

definition owner_or_admin :: "database \<Rightarrow> user \<Rightarrow> int \<Rightarrow> order \<Rightarrow> bool" where
  "owner_or_admin db usr user_id ord =
     (user_type usr = ''admin''
      \<or> (user_type usr = ''store''
          \<and> map_option s_id (store_of_user db user_id) = Some (o_store_id ord))
      \<or> (user_type usr = ''deliverer'' \<and> o_deliverer_id ord = Some user_id))"

text \<open>The client who placed the order.\<close>

definition placing_client :: "user \<Rightarrow> int \<Rightarrow> order \<Rightarrow> bool" where
  "placing_client usr user_id ord = (user_type usr = ''client'' \<and> o_client_id ord = user_id)"

text \<open>
  "An active city override exists": the request names a city of the table that
  is active.
\<close>

definition active_city_override :: "database \<Rightarrow> int option \<Rightarrow> allowed_city option" where
  "active_city_override db city_id =
     (case city_id of
        None \<Rightarrow> None
      | Some c \<Rightarrow> find (\<lambda>x. c_id x = c \<and> c_is_active x) (allowed_cities db))"

text \<open>
  The table of cities has a primary key: no two rows share an id, and no row has
  the id \<open>0\<close> (keys are generated from 1).
\<close>

definition city_keys_ok :: "database \<Rightarrow> bool" where
  "city_keys_ok db =
     (distinct (map c_id (allowed_cities db)) \<and> 0 \<notin> set (map c_id (allowed_cities db)))"

text \<open>
  The rate of the contract: the city's when an active city override exists, the
  platform default otherwise.
\<close>

definition contract_rate :: "database \<Rightarrow> int option \<Rightarrow> real" where
  "contract_rate db city_id =
     (case active_city_override db city_id of
        Some city \<Rightarrow> c_delivery_fee_per_km city
      | None \<Rightarrow> get_platform_setting db ''default_delivery_fee_per_km'' 2.0)"

section \<open>The table of the code and the table of the specification\<close>

lemma transitions_of_role:
  "current_status_transitions role cur =
     (if role = ''store'' then dict_get
        [(''pending'', [''accepted'', ''cancelled'']),
         (''accepted'', [''preparing'']),
         (''preparing'', [''ready''])] cur []
      else if role = ''deliverer'' then dict_get
        [(''ready'', [''delivering'']),
         (''delivering'', [''delivered''])] cur []
      else if role = ''admin'' then dict_get
        [(''pending'', [''accepted'', ''cancelled'']),
         (''accepted'', [''preparing'', ''cancelled'']),
         (''preparing'', [''ready'', ''cancelled'']),
         (''ready'', [''delivering'', ''cancelled'']),
         (''delivering'', [''delivered'', ''cancelled''])] cur []
      else [])"
  by (simp add: current_status_transitions_def valid_transitions_def dict_get_def)

lemma store_table_refines:
  "set (dict_get
        [(''pending'', [''accepted'', ''cancelled'']),
         (''accepted'', [''preparing'']),
         (''preparing'', [''ready''])] cur []) = spec_store_table cur"
  by (auto simp: dict_get_def spec_store_table_def)

lemma deliverer_table_refines:
  "set (dict_get
        [(''ready'', [''delivering'']),
         (''delivering'', [''delivered''])] cur []) = spec_deliverer_table cur"
  by (auto simp: dict_get_def spec_deliverer_table_def)

lemma admin_table_refines:
  "set (dict_get
        [(''pending'', [''accepted'', ''cancelled'']),
         (''accepted'', [''preparing'', ''cancelled'']),
         (''preparing'', [''ready'', ''cancelled'']),
         (''ready'', [''delivering'', ''cancelled'']),
         (''delivering'', [''delivered'', ''cancelled''])] cur [])
     = spec_store_table cur \<union> spec_deliverer_table cur
        \<union> (if active_status cur then {''cancelled''} else {})"
  by (auto simp: dict_get_def spec_store_table_def spec_deliverer_table_def active_status_def)

lemma table_refines_spec:
  "set (current_status_transitions role cur) = spec_table role cur"
  unfolding transitions_of_role spec_table_def
  using store_table_refines [of cur] deliverer_table_refines [of cur] admin_table_refines [of cur]
  by (cases "role = ''store''"; cases "role = ''deliverer''"; cases "role = ''admin''") simp_all

section \<open>Lookups after an update\<close>

text \<open>
  A rewrite of the rows that keeps their keys is seen by a lookup as the same
  rewrite of the row it finds.
\<close>

lemma find_map_o_id:
  assumes "\<And>x. o_id (f x) = o_id x"
  shows "find (\<lambda>x. o_id x = i) (map f xs) = map_option f (find (\<lambda>x. o_id x = i) xs)"
  using assms by (induction xs) auto

lemma get_order_id: "get_order db i = Some ord \<Longrightarrow> o_id ord = i"
  by (auto simp: get_order_def find_Some_iff)

lemma get_order_update_order:
  assumes "\<And>x. o_id (f x) = o_id x"
  shows "get_order (update_order j f db) i =
           (if i = j then map_option f (get_order db i) else get_order db i)"
proof -
  have "get_order (update_order j f db) i
          = map_option (\<lambda>x. if o_id x = j then f x else x) (get_order db i)"
    unfolding get_order_def update_order_def using assms by (simp add: find_map_o_id)
  also have "\<dots> = (if i = j then map_option f (get_order db i) else get_order db i)"
    by (cases "get_order db i") (auto dest: get_order_id)
  finally show ?thesis .
qed

lemma order_status_update_order:
  assumes "get_order db i = Some ord"
  shows "order_status (update_order i (\<lambda>x. x\<lparr>o_status := s, o_updated_at := t\<rparr>) db) i = Some s"
  using assms by (simp add: order_status_def get_order_update_order)

section \<open>The role-gated transition table\<close>

text \<open>
  Claim C2, as the code has it. For an existing order, a known caller and a
  non-empty requested status, \<^verbatim>\<open>update_order_status\<close> succeeds exactly when
  the caller passes the ownership gate (an administrator, the store that owns
  the order, the deliverer assigned to it) and the table of section 4.1 maps the
  caller's role and the current status to a set that contains the new status.
  A caller that passes the gate and asks for a transition outside the table
  gets \<open>InvalidTransition\<close>; a caller that fails the gate gets \<open>Forbidden\<close>;
  a failed call leaves the database as it was, and a successful one leaves the
  order in the new status.
\<close>

theorem update_order_status_role_gated:
  assumes ord: "get_order db order_id = Some ord"
    and usr: "get_user db user_id = Some usr"
    and st: "new_status \<noteq> []"
  shows "((\<exists>db'. update_order_status user_id order_id new_status now db = Inr db')
            \<longleftrightarrow> has_permission db usr user_id ord
                \<and> new_status \<in> spec_table (user_type usr) (o_status ord))
       \<and> (has_permission db usr user_id ord
            \<and> new_status \<notin> spec_table (user_type usr) (o_status ord)
          \<longrightarrow> update_order_status user_id order_id new_status now db
                = Inl (InvalidTransition (o_status ord) new_status))
       \<and> (\<not> has_permission db usr user_id ord
          \<longrightarrow> update_order_status user_id order_id new_status now db = Inl Forbidden)
       \<and> ((\<exists>e. update_order_status user_id order_id new_status now db = Inl e)
          \<longrightarrow> state_after (update_order_status user_id order_id new_status now db) db = db)
       \<and> (\<forall>db'. update_order_status user_id order_id new_status now db = Inr db'
          \<longrightarrow> order_status db' order_id = Some new_status)"
proof -
  have tab: "set (current_status_transitions (user_type usr) (o_status ord))
               = spec_table (user_type usr) (o_status ord)"
    by (rule table_refines_spec)
  show ?thesis
    using ord usr st tab order_status_update_order [OF ord]
    by (auto simp: update_order_status_def state_after_def)
qed

text \<open>
  The store of user 2 owns order 11, which is being prepared: its request to
  move the order to \<^verbatim>\<open>delivering\<close> is an invalid transition and changes
  nothing, its request to move it to \<^verbatim>\<open>ready\<close> succeeds.
\<close>

theorem update_order_status_role_gated_witness:
  "update_order_status 2 11 ''delivering'' 0 example_db
     = Inl (InvalidTransition ''preparing'' ''delivering'')
   \<and> state_after (update_order_status 2 11 ''delivering'' 0 example_db) example_db = example_db
   \<and> order_status (state_after (update_order_status 2 11 ''ready'' 0 example_db) example_db) 11
       = Some ''ready''"
proof -
  let ?ord = "\<lparr>o_id = 11, o_client_id = 4, o_store_id = 5, o_deliverer_id = None,
       o_status = ''preparing'', o_delivery_address = ''Rua A 1'', o_notes = None, o_updated_at = 0\<rparr>"
  let ?usr = "\<lparr>u_id = 2, user_type = ''store'', u_is_active = True\<rparr>"
  have ord: "get_order example_db 11 = Some ?ord"
    by (simp add: example_db_def example_orders_def get_order_def)
  have usr: "get_user example_db 2 = Some ?usr"
    by (simp add: example_db_def get_user_def)
  have perm: "has_permission example_db ?usr 2 ?ord"
    by (simp add: has_permission_def store_of_user_def example_db_def)
  have no: "''delivering'' \<notin> spec_table (user_type ?usr) (o_status ?ord)"
    by (simp add: spec_table_def spec_store_table_def)
  have yes: "''ready'' \<in> spec_table (user_type ?usr) (o_status ?ord)"
    by (simp add: spec_table_def spec_store_table_def)
  have a: "update_order_status 2 11 ''delivering'' 0 example_db
     = Inl (InvalidTransition ''preparing'' ''delivering'')"
    using update_order_status_role_gated [OF ord usr, of "''delivering''" 0] perm no by simp
  obtain db' where b: "update_order_status 2 11 ''ready'' 0 example_db = Inr db'"
    and c: "order_status db' 11 = Some ''ready''"
    using update_order_status_role_gated [OF ord usr, of "''ready''" 0] perm yes by auto
  show ?thesis using a b c by (simp add: state_after_def)
qed

text \<open>
  The claim as stated, with the table alone deciding, fails: user 3 is a store,
  order 10 is pending and the table lets a store accept a pending order, but
  order 10 belongs to another store and the call is refused with \<open>Forbidden\<close>.
\<close>

theorem update_order_status_table_counterexample:
  "update_order_status 3 10 ''accepted'' 0 example_db = Inl Forbidden
   \<and> ''accepted'' \<in> spec_table ''store'' ''pending''
   \<and> map_option user_type (get_user example_db 3) = Some ''store''
   \<and> order_status example_db 10 = Some ''pending''"
  by (simp add: update_order_status_def has_permission_def order_status_def
      get_order_def get_user_def store_of_user_def example_db_def example_orders_def
      spec_table_def spec_store_table_def)

lemma find_map_r_id:
  assumes "\<And>x. r_id (f x) = r_id x"
  shows "find (\<lambda>x. r_id x = i) (map f xs) = map_option f (find (\<lambda>x. r_id x = i) xs)"
  using assms by (induction xs) auto

lemma get_delivery_request_id: "get_delivery_request db i = Some req \<Longrightarrow> r_id req = i"
  by (auto simp: get_delivery_request_def find_Some_iff)

lemma get_delivery_request_update:
  assumes "\<And>x. r_id (f x) = r_id x"
  shows "get_delivery_request (update_delivery_request j f db) i =
           (if i = j then map_option f (get_delivery_request db i) else get_delivery_request db i)"
proof -
  have "get_delivery_request (update_delivery_request j f db) i
          = map_option (\<lambda>x. if r_id x = j then f x else x) (get_delivery_request db i)"
    unfolding get_delivery_request_def update_delivery_request_def
    using assms by (simp add: find_map_r_id)
  also have "\<dots> = (if i = j then map_option f (get_delivery_request db i)
                    else get_delivery_request db i)"
    by (cases "get_delivery_request db i") (auto dest: get_delivery_request_id)
  finally show ?thesis .
qed

lemma get_delivery_request_update_order [simp]:
  "get_delivery_request (update_order j f db) i = get_delivery_request db i"
  by (simp add: get_delivery_request_def update_order_def)

lemma get_order_update_delivery_request [simp]:
  "get_order (update_delivery_request j f db) i = get_order db i"
  by (simp add: get_order_def update_delivery_request_def)

section \<open>Single assignment of jobs\<close>

text \<open>When a claim succeeds, and what it writes.\<close>

lemma accept_delivery_success:
  "accept_delivery user_id order_id now db = Inr db' \<longleftrightarrow>
     (\<exists>usr ord. get_user db user_id = Some usr \<and> user_type usr = ''deliverer''
        \<and> get_order db order_id = Some ord \<and> o_status ord = ''ready''
        \<and> \<not> truthy (o_deliverer_id ord)
        \<and> db' = update_order order_id
                  (\<lambda>x. x\<lparr>o_deliverer_id := Some user_id, o_status := ''delivering'',
                         o_updated_at := now\<rparr>) db)"
  by (auto simp: accept_delivery_def split: option.splits)

lemma accept_delivery_request_success:
  "accept_delivery_request user_id request_id db = Inr db' \<longleftrightarrow>
     (\<exists>usr dlv req. get_user db user_id = Some usr \<and> user_type usr = ''deliverer''
        \<and> deliverer_of_user db user_id = Some dlv \<and> is_online dlv
        \<and> get_delivery_request db request_id = Some req \<and> r_status req = ''pending''
        \<and> \<not> truthy (r_deliverer_id req)
        \<and> db' = update_delivery_request request_id
                  (\<lambda>r. r\<lparr>r_deliverer_id := Some user_id, r_status := ''accepted''\<rparr>) db)"
  by (auto simp: accept_delivery_request_def split: option.splits)

lemma accept_delivery_keeps_order_bound:
  assumes "order_bound_to db i d"
  shows "order_bound_to (state_after (accept_delivery user_id order_id now db) db) i d"
proof (cases "accept_delivery user_id order_id now db")
  case (Inl e)
  then show ?thesis using assms by (simp add: state_after_def)
next
  case (Inr db')
  then obtain ord where ord: "get_order db order_id = Some ord"
      and free: "\<not> truthy (o_deliverer_id ord)"
      and db': "db' = update_order order_id
                  (\<lambda>x. x\<lparr>o_deliverer_id := Some user_id, o_status := ''delivering'',
                         o_updated_at := now\<rparr>) db"
    unfolding accept_delivery_success by blast
  have "i \<noteq> order_id"
    using assms ord free by (auto simp: order_bound_to_def truthy_def)
  then show ?thesis
    using assms Inr db' by (simp add: state_after_def order_bound_to_def get_order_update_order)
qed

lemma accept_delivery_request_keeps_request_bound:
  assumes "request_bound_to db i d"
  shows "request_bound_to (state_after (accept_delivery_request user_id request_id db) db) i d"
proof (cases "accept_delivery_request user_id request_id db")
  case (Inl e)
  then show ?thesis using assms by (simp add: state_after_def)
next
  case (Inr db')
  then obtain req where req: "get_delivery_request db request_id = Some req"
      and free: "\<not> truthy (r_deliverer_id req)"
      and db': "db' = update_delivery_request request_id
                  (\<lambda>r. r\<lparr>r_deliverer_id := Some user_id, r_status := ''accepted''\<rparr>) db"
    unfolding accept_delivery_request_success by blast
  have "i \<noteq> request_id"
    using assms req free by (auto simp: request_bound_to_def truthy_def)
  then show ?thesis
    using assms Inr db'
    by (simp add: state_after_def request_bound_to_def get_delivery_request_update)
qed

lemma accept_delivery_keeps_request_bound:
  assumes "request_bound_to db i d"
  shows "request_bound_to (state_after (accept_delivery user_id order_id now db) db) i d"
proof (cases "accept_delivery user_id order_id now db")
  case (Inl e)
  then show ?thesis using assms by (simp add: state_after_def)
next
  case (Inr db')
  then have "\<exists>f. db' = update_order order_id f db"
    unfolding accept_delivery_success by blast
  then show ?thesis
    using assms Inr by (auto simp: state_after_def request_bound_to_def)
qed

lemma accept_delivery_request_keeps_order_bound:
  assumes "order_bound_to db i d"
  shows "order_bound_to (state_after (accept_delivery_request user_id request_id db) db) i d"
proof (cases "accept_delivery_request user_id request_id db")
  case (Inl e)
  then show ?thesis using assms by (simp add: state_after_def)
next
  case (Inr db')
  then have "\<exists>f. db' = update_delivery_request request_id f db"
    unfolding accept_delivery_request_success by blast
  then show ?thesis
    using assms Inr by (auto simp: state_after_def order_bound_to_def)
qed

lemma claim_step_keeps_bound:
  "order_bound_to db i d \<Longrightarrow> order_bound_to (claim_step c db) i d"
  "request_bound_to db j e \<Longrightarrow> request_bound_to (claim_step c db) j e"
  by (cases c; simp add: claim_step_def accept_delivery_keeps_order_bound
        accept_delivery_request_keeps_order_bound accept_delivery_keeps_request_bound
        accept_delivery_request_keeps_request_bound)+

lemma run_claims_keeps_order_bound:
  "order_bound_to db i d \<Longrightarrow> order_bound_to (run_claims cs db) i d"
  unfolding run_claims_def
  by (induction cs arbitrary: db) (simp_all add: claim_step_keeps_bound)

lemma run_claims_keeps_request_bound:
  "request_bound_to db j e \<Longrightarrow> request_bound_to (run_claims cs db) j e"
  unfolding run_claims_def
  by (induction cs arbitrary: db) (simp_all add: claim_step_keeps_bound)

text \<open>
  The handler is its check followed by its write, on one database; a claim
  handled alone, its read and then its commit, is one call of the handler.
\<close>

lemma accept_delivery_split:
  "accept_delivery user_id order_id now db =
     (case accept_delivery_check user_id order_id db of
        Inl e \<Rightarrow> Inl e
      | Inr ok \<Rightarrow> Inr (accept_delivery_write user_id order_id now db))"
  by (simp add: accept_delivery_def accept_delivery_check_def accept_delivery_write_def
      split: option.splits)

lemma claim_handled_alone:
  "run_events [ReadOrder user_id order_id, CommitOrder user_id order_id now] (db, [])
     = (state_after (accept_delivery user_id order_id now db) db, [])"
  by (simp add: run_events_def event_step_def accept_delivery_split state_after_def
      split: sum.splits)

text \<open>
  Claim C1, as the code has it, for claims that are handled one at a time. A
  claim on an order that already has a deliverer (a deliverer id that is not
  \<open>0\<close>, which no user has) fails and leaves the database as it was: for a
  caller that is a deliverer with \<open>AlreadyAssigned\<close> when the order is still
  \<^verbatim>\<open>ready\<close> and with \<open>InvalidState\<close> otherwise, since the status is checked
  first, and for any other caller with \<open>Forbidden\<close>. So does a claim on a
  delivery request that already has a deliverer: \<open>Forbidden\<close> for a caller that
  is not a deliverer, \<open>NotEligible\<close> for a deliverer that is not online, and
  else \<open>AlreadyAssigned\<close> when the request is still \<^verbatim>\<open>pending\<close> and
  \<open>InvalidState\<close> otherwise. Whatever claims follow one after the other, of
  orders or of requests, by whomever, the job stays bound to the deliverer it
  has. A claim succeeds only for a deliverer, on an order that is \<^verbatim>\<open>ready\<close>
  (a request that is \<^verbatim>\<open>pending\<close>) and has no deliverer, and binds it to the
  caller.
\<close>

theorem claim_single_assignment:
  "(order_bound_to db order_id d \<longrightarrow>
      accept_delivery user_id order_id now db
        = Inl (if map_option user_type (get_user db user_id) \<noteq> Some ''deliverer''
               then Forbidden
               else if order_status db order_id = Some ''ready''
               then AlreadyAssigned else InvalidState)
      \<and> state_after (accept_delivery user_id order_id now db) db = db
      \<and> order_bound_to (run_claims cs db) order_id d)
   \<and> (request_bound_to db request_id d' \<longrightarrow>
      accept_delivery_request user_id request_id db
        = Inl (if map_option user_type (get_user db user_id) \<noteq> Some ''deliverer''
               then Forbidden
               else if map_option is_online (deliverer_of_user db user_id) \<noteq> Some True
               then NotEligible
               else if map_option r_status (get_delivery_request db request_id)
                         = Some ''pending''
               then AlreadyAssigned else InvalidState)
      \<and> state_after (accept_delivery_request user_id request_id db) db = db
      \<and> request_bound_to (run_claims cs db) request_id d')
   \<and> (\<forall>u i t db'. accept_delivery u i t db = Inr db'
        \<longrightarrow> map_option user_type (get_user db u) = Some ''deliverer''
            \<and> order_status db i = Some ''ready''
            \<and> map_option (\<lambda>x. truthy (o_deliverer_id x)) (get_order db i) = Some False
            \<and> map_option o_deliverer_id (get_order db' i) = Some (Some u)
            \<and> order_status db' i = Some ''delivering'')
   \<and> (\<forall>u i db'. accept_delivery_request u i db = Inr db'
        \<longrightarrow> map_option user_type (get_user db u) = Some ''deliverer''
            \<and> map_option r_status (get_delivery_request db i) = Some ''pending''
            \<and> map_option (\<lambda>x. truthy (r_deliverer_id x)) (get_delivery_request db i)
                = Some False
            \<and> map_option r_deliverer_id (get_delivery_request db' i) = Some (Some u))"
proof -
  have a: "accept_delivery user_id order_id now db
        = Inl (if map_option user_type (get_user db user_id) \<noteq> Some ''deliverer''
               then Forbidden
               else if order_status db order_id = Some ''ready''
               then AlreadyAssigned else InvalidState)"
    if "order_bound_to db order_id d"
    using that
    by (auto simp: order_bound_to_def accept_delivery_def truthy_def order_status_def
          split: option.splits)
  have b: "accept_delivery_request user_id request_id db
        = Inl (if map_option user_type (get_user db user_id) \<noteq> Some ''deliverer''
               then Forbidden
               else if map_option is_online (deliverer_of_user db user_id) \<noteq> Some True
               then NotEligible
               else if map_option r_status (get_delivery_request db request_id)
                         = Some ''pending''
               then AlreadyAssigned else InvalidState)"
    if "request_bound_to db request_id d'"
    using that
    by (auto simp: request_bound_to_def accept_delivery_request_def truthy_def
          split: option.splits)
  have h: "\<forall>u i t db'. accept_delivery u i t db = Inr db'
        \<longrightarrow> map_option user_type (get_user db u) = Some ''deliverer''
            \<and> order_status db i = Some ''ready''
            \<and> map_option (\<lambda>x. truthy (o_deliverer_id x)) (get_order db i) = Some False
            \<and> map_option o_deliverer_id (get_order db' i) = Some (Some u)
            \<and> order_status db' i = Some ''delivering''"
    unfolding accept_delivery_success
    by (auto simp: order_status_def get_order_update_order)
  have k: "\<forall>u i db'. accept_delivery_request u i db = Inr db'
        \<longrightarrow> map_option user_type (get_user db u) = Some ''deliverer''
            \<and> map_option r_status (get_delivery_request db i) = Some ''pending''
            \<and> map_option (\<lambda>x. truthy (r_deliverer_id x)) (get_delivery_request db i)
                = Some False
            \<and> map_option r_deliverer_id (get_delivery_request db' i) = Some (Some u)"
    unfolding accept_delivery_request_success
    by (auto simp: get_delivery_request_update)
  show ?thesis
    using a b h k run_claims_keeps_order_bound [of db order_id d cs]
      run_claims_keeps_request_bound [of db request_id d' cs]
    by (simp add: state_after_def)
qed

text \<open>
  Order 15 is ready and bound to deliverer 9: the claim of deliverer 7 on it is
  refused with \<open>AlreadyAssigned\<close>, that of the store user 2 with \<open>Forbidden\<close>.
  Request 21 is accepted and bound to deliverer 7: the claim of deliverer 7 on it
  is refused with \<open>InvalidState\<close>. Both jobs keep their deliverer through a run
  of claims, in which deliverer 8 gets the free order 12.
\<close>

theorem claim_single_assignment_witness:
  "accept_delivery 7 15 0 example_db = Inl AlreadyAssigned
   \<and> accept_delivery 2 15 0 example_db = Inl Forbidden
   \<and> state_after (accept_delivery 7 15 0 example_db) example_db = example_db
   \<and> order_bound_to (run_claims [ClaimOrder 7 15 0, ClaimOrder 8 12 1, ClaimRequest 7 20]
                       example_db) 15 9
   \<and> accept_delivery_request 7 21 example_db = Inl InvalidState
   \<and> state_after (accept_delivery_request 7 21 example_db) example_db = example_db
   \<and> request_bound_to (run_claims [ClaimOrder 7 15 0, ClaimOrder 8 12 1, ClaimRequest 7 20]
                         example_db) 21 7"
proof -
  have ob: "order_bound_to example_db 15 9"
    by (simp add: order_bound_to_def get_order_def example_db_def example_orders_def)
  have rb: "request_bound_to example_db 21 7"
    by (simp add: request_bound_to_def get_delivery_request_def example_db_def)
  have u: "map_option user_type (get_user example_db 7) = Some ''deliverer''"
    "map_option user_type (get_user example_db 2) \<noteq> Some ''deliverer''"
    by (simp_all add: get_user_def example_db_def)
  have on: "map_option is_online (deliverer_of_user example_db 7) = Some True"
    by (simp add: deliverer_of_user_def example_db_def)
  have st: "order_status example_db 15 = Some ''ready''"
    by (simp add: order_status_def get_order_def example_db_def example_orders_def)
  have rs: "map_option r_status (get_delivery_request example_db 21) \<noteq> Some ''pending''"
    by (simp add: get_delivery_request_def example_db_def)
  show ?thesis
    using claim_single_assignment [of example_db 15 9 7 0
        "[ClaimOrder 7 15 0, ClaimOrder 8 12 1, ClaimRequest 7 20]" 21 7]
      claim_single_assignment [of example_db 15 9 2 0 "[]" 21 7]
      ob rb u on st rs
    by (simp add: state_after_def)
qed

text \<open>
  The claim as stated fails twice. With \<open>AlreadyAssigned\<close> for every job that
  has a deliverer: order 13 is bound to deliverer 7 and is being delivered, and
  the claim of deliverer 8 is refused with \<open>InvalidState\<close>. With at most one
  deliverer ever bound to an order: order 12 is ready and free, the reads of the
  deliverers 7 and 8 both pass their checks before either commits, the commit of
  deliverer 7 binds the order to 7, and the commit of deliverer 8 then binds it
  to 8.
\<close>

theorem claim_error_and_race_counterexample:
  "map_option o_deliverer_id (get_order example_db 13) = Some (Some 7)
   \<and> map_option user_type (get_user example_db 8) = Some ''deliverer''
   \<and> accept_delivery 8 13 0 example_db = Inl InvalidState
   \<and> accept_delivery 8 13 0 example_db \<noteq> Inl AlreadyAssigned
   \<and> map_option o_deliverer_id (get_order example_db 12) = Some None
   \<and> accept_delivery_check 7 12 example_db = Inr ()
   \<and> accept_delivery_check 8 12 example_db = Inr ()
   \<and> map_option o_deliverer_id
        (get_order (fst (run_events [ReadOrder 7 12, ReadOrder 8 12, CommitOrder 7 12 1]
                           (example_db, []))) 12) = Some (Some 7)
   \<and> map_option o_deliverer_id
        (get_order (fst (run_events [ReadOrder 7 12, ReadOrder 8 12, CommitOrder 7 12 1,
                                     CommitOrder 8 12 2]
                           (example_db, []))) 12) = Some (Some 8)"
  by (simp add: accept_delivery_def accept_delivery_check_def accept_delivery_write_def
      run_events_def event_step_def update_order_def truthy_def
      get_order_def get_user_def example_db_def example_orders_def)

lemma state_after_Inl [simp]: "state_after (Inl e) db = db"
  by (simp add: state_after_def)

lemma state_after_Inr [simp]: "state_after (Inr db') db = db'"
  by (simp add: state_after_def)

section \<open>Eligibility of the claimant\<close>

text \<open>
  Claim C3, as the code has it. A deliverer whose profile is missing or offline
  cannot claim a delivery request: the call is refused with \<open>NotEligible\<close> and
  nothing is assigned; a claim of a delivery request succeeds only for a
  deliverer that is online. The flag \<^verbatim>\<open>is_approved\<close> is not read when a job
  is claimed.
\<close>

theorem delivery_request_claim_requires_online:
  assumes usr: "map_option user_type (get_user db user_id) = Some ''deliverer''"
    and off: "map_option is_online (deliverer_of_user db user_id) \<noteq> Some True"
  shows "accept_delivery_request user_id request_id db = Inl NotEligible
       \<and> state_after (accept_delivery_request user_id request_id db) db = db
       \<and> (\<forall>u r db'. accept_delivery_request u r db = Inr db'
            \<longrightarrow> map_option user_type (get_user db u) = Some ''deliverer''
                \<and> map_option is_online (deliverer_of_user db u) = Some True)"
proof -
  have a: "accept_delivery_request user_id request_id db = Inl NotEligible"
    using usr off by (auto simp: accept_delivery_request_def split: option.splits)
  have b: "\<forall>u r db'. accept_delivery_request u r db = Inr db'
            \<longrightarrow> map_option user_type (get_user db u) = Some ''deliverer''
                \<and> map_option is_online (deliverer_of_user db u) = Some True"
    unfolding accept_delivery_request_success by auto
  show ?thesis using a b by (simp add: state_after_def)
qed

text \<open>Deliverer 9 is offline: its claim of the pending request 20 is refused.\<close>

theorem delivery_request_claim_requires_online_witness:
  "accept_delivery_request 9 20 example_db = Inl NotEligible
   \<and> state_after (accept_delivery_request 9 20 example_db) example_db = example_db"
proof -
  have usr: "map_option user_type (get_user example_db 9) = Some ''deliverer''"
    by (simp add: get_user_def example_db_def)
  have off: "map_option is_online (deliverer_of_user example_db 9) \<noteq> Some True"
    by (simp add: deliverer_of_user_def example_db_def)
  show ?thesis
    using delivery_request_claim_requires_online [OF usr off, of 20] by simp
qed

text \<open>
  The claim as stated fails. Deliverer 8 is online and not approved: it claims
  the pending request 20 and gets it. Deliverer 9 is offline: it claims the
  ready order 12 and gets it, since \<^verbatim>\<open>accept_delivery\<close> reads no flag of the
  deliverer profile.
\<close>

theorem claim_eligibility_counterexample:
  "map_option is_approved (deliverer_of_user example_db 8) = Some False
   \<and> \<not> isl (accept_delivery_request 8 20 example_db)
   \<and> map_option r_deliverer_id
        (get_delivery_request
           (state_after (accept_delivery_request 8 20 example_db) example_db) 20)
       = Some (Some 8)
   \<and> map_option is_online (deliverer_of_user example_db 9) = Some False
   \<and> \<not> isl (accept_delivery 9 12 0 example_db)
   \<and> map_option o_deliverer_id
        (get_order (state_after (accept_delivery 9 12 0 example_db) example_db) 12)
       = Some (Some 9)"
  by (simp add: accept_delivery_request_def accept_delivery_def state_after_def
      update_delivery_request_def update_order_def get_delivery_request_def get_order_def
      get_user_def deliverer_of_user_def truthy_def example_db_def example_orders_def)

section \<open>The counter of deliveries\<close>

text \<open>
  Claim C5 says that moving an order to \<^verbatim>\<open>delivered\<close> adds one to the
  \<^verbatim>\<open>total_deliveries\<close> of its deliverer. The code does not: deliverer 7 marks
  its order 13 as delivered, the update succeeds, and the counter of deliverer 7
  is \<open>0\<close> before and after.
\<close>

theorem delivered_counter_not_incremented:
  "order_status example_db 13 = Some ''delivering''
   \<and> map_option o_deliverer_id (get_order example_db 13) = Some (Some 7)
   \<and> \<not> isl (update_order_status 7 13 ''delivered'' 1 example_db)
   \<and> order_status (state_after (update_order_status 7 13 ''delivered'' 1 example_db) example_db) 13
       = Some ''delivered''
   \<and> map_option total_deliveries (deliverer_of_user example_db 7) = Some 0
   \<and> map_option total_deliveries
        (deliverer_of_user
           (state_after (update_order_status 7 13 ''delivered'' 1 example_db) example_db) 7)
       = Some 0"
  by (simp add: update_order_status_def has_permission_def state_after_def order_status_def
      update_order_def get_order_def get_user_def deliverer_of_user_def
      transitions_of_role dict_get_def example_db_def example_orders_def)

section \<open>Location updates\<close>

text \<open>When a location update succeeds, and what it writes.\<close>

lemma update_deliverer_location_success:
  "update_deliverer_location user_id data now db = Inr db' \<longleftrightarrow>
     (\<exists>usr dlv lat lon. get_user db user_id = Some usr \<and> user_type usr = ''deliverer''
        \<and> deliverer_of_user db user_id = Some dlv \<and> is_online dlv
        \<and> ld_latitude data = Some lat \<and> ld_longitude data = Some lon
        \<and> db' = db\<lparr>deliverer_locations :=
                       map (\<lambda>l. if l_deliverer_id l = user_id \<and> l_is_active l
                                 then l\<lparr>l_is_active := False\<rparr> else l)
                           (deliverer_locations db)
                       @ [\<lparr>l_deliverer_id = user_id, l_latitude = lat,
                           l_longitude = lon, l_accuracy = ld_accuracy data,
                           l_speed = ld_speed data, l_heading = ld_heading data,
                           l_is_active = True, l_created_at = now\<rparr>],
                     order_trackings :=
                       order_trackings db
                       @ map (tracking_row user_id lat lon now) (active_orders db user_id)\<rparr>)"
  by (auto simp: update_deliverer_location_def split: option.splits)

text \<open>
  Claim C9, as the code has it. A location update succeeds only for a caller
  that is a deliverer with an online profile; for a deliverer whose profile is
  missing or offline it is refused with \<open>NotEligible\<close> and no location row is
  written. The flag \<^verbatim>\<open>is_approved\<close> is not read.
\<close>

theorem location_update_requires_online:
  assumes usr: "map_option user_type (get_user db user_id) = Some ''deliverer''"
    and off: "map_option is_online (deliverer_of_user db user_id) \<noteq> Some True"
  shows "update_deliverer_location user_id data now db = Inl NotEligible
       \<and> deliverer_locations (state_after (update_deliverer_location user_id data now db) db)
           = deliverer_locations db
       \<and> (\<forall>u dat t db'. update_deliverer_location u dat t db = Inr db'
            \<longrightarrow> map_option user_type (get_user db u) = Some ''deliverer''
                \<and> map_option is_online (deliverer_of_user db u) = Some True)"
proof -
  have a: "update_deliverer_location user_id data now db = Inl NotEligible"
    using usr off by (auto simp: update_deliverer_location_def split: option.splits)
  have b: "\<forall>u dat t db'. update_deliverer_location u dat t db = Inr db'
            \<longrightarrow> map_option user_type (get_user db u) = Some ''deliverer''
                \<and> map_option is_online (deliverer_of_user db u) = Some True"
    unfolding update_deliverer_location_success by auto
  show ?thesis using a b by simp
qed

text \<open>Deliverer 9 is offline: its update is refused and the table stays empty.\<close>

theorem location_update_requires_online_witness:
  "update_deliverer_location 9
      \<lparr>ld_latitude = Some 1, ld_longitude = Some 2, ld_accuracy = None, ld_speed = None,
       ld_heading = None\<rparr> 0 example_db = Inl NotEligible
   \<and> deliverer_locations
        (state_after (update_deliverer_location 9
           \<lparr>ld_latitude = Some 1, ld_longitude = Some 2, ld_accuracy = None, ld_speed = None,
            ld_heading = None\<rparr> 0 example_db) example_db) = []"
proof -
  have usr: "map_option user_type (get_user example_db 9) = Some ''deliverer''"
    by (simp add: get_user_def example_db_def)
  have off: "map_option is_online (deliverer_of_user example_db 9) \<noteq> Some True"
    by (simp add: deliverer_of_user_def example_db_def)
  have e: "deliverer_locations example_db = []"
    by (simp add: example_db_def)
  show ?thesis
    using location_update_requires_online [OF usr off] e by simp
qed

text \<open>
  The claim as stated, with approval required, fails: deliverer 8 is online and
  not approved, and its update succeeds and writes a row.
\<close>

theorem location_update_unapproved_counterexample:
  "map_option is_approved (deliverer_of_user example_db 8) = Some False
   \<and> \<not> isl (update_deliverer_location 8
        \<lparr>ld_latitude = Some 1, ld_longitude = Some 2, ld_accuracy = None, ld_speed = None,
         ld_heading = None\<rparr> 0 example_db)
   \<and> deliverer_locations
        (state_after (update_deliverer_location 8
           \<lparr>ld_latitude = Some 1, ld_longitude = Some 2, ld_accuracy = None, ld_speed = None,
            ld_heading = None\<rparr> 0 example_db) example_db)
       = [\<lparr>l_deliverer_id = 8, l_latitude = 1, l_longitude = 2, l_accuracy = None,
           l_speed = None, l_heading = None, l_is_active = True, l_created_at = 0\<rparr>]"
  by (simp add: update_deliverer_location_def get_user_def deliverer_of_user_def example_db_def)

section \<open>Ownership gating\<close>

text \<open>The two access blocks of the code against the rule of the claim.\<close>

lemma has_permission_owner_or_admin:
  "has_permission db usr user_id ord = owner_or_admin db usr user_id ord"
  by (auto simp: has_permission_def owner_or_admin_def split: option.splits)

lemma has_access_owner_or_client:
  "has_access db usr user_id ord
     = (owner_or_admin db usr user_id ord \<or> placing_client usr user_id ord)"
  by (auto simp: has_access_def owner_or_admin_def placing_client_def split: option.splits)

text \<open>
  Claim C10, as the code has it. For an existing order and a known caller, a
  status update succeeds only when the caller is an administrator, the store
  that owns the order or the deliverer assigned to it; any other caller that
  sends a non-empty status is refused with \<open>Forbidden\<close> and the database is
  unchanged. Reading the tracking data of the order is open to the same callers
  and to the client who placed the order, and refused with \<open>Forbidden\<close> to
  everybody else.
\<close>

theorem order_access_gated:
  assumes ord: "get_order db order_id = Some ord"
    and usr: "get_user db user_id = Some usr"
  shows "(\<forall>db'. update_order_status user_id order_id new_status now db = Inr db'
            \<longrightarrow> owner_or_admin db usr user_id ord)
       \<and> (new_status \<noteq> [] \<and> \<not> owner_or_admin db usr user_id ord
            \<longrightarrow> update_order_status user_id order_id new_status now db = Inl Forbidden
                \<and> state_after (update_order_status user_id order_id new_status now db) db = db)
       \<and> (\<not> isl (track_order user_id order_id db)
            \<longleftrightarrow> owner_or_admin db usr user_id ord \<or> placing_client usr user_id ord)
       \<and> (\<not> (owner_or_admin db usr user_id ord \<or> placing_client usr user_id ord)
            \<longrightarrow> track_order user_id order_id db = Inl Forbidden)"
  using ord usr
  by (auto simp: update_order_status_def track_order_def has_permission_owner_or_admin
        has_access_owner_or_client split: if_splits)

text \<open>
  Order 10 belongs to store 5, the store of user 2. User 3, another store, can
  neither update nor track it; user 2 can track it.
\<close>

theorem order_access_gated_witness:
  "update_order_status 3 10 ''accepted'' 0 example_db = Inl Forbidden
   \<and> state_after (update_order_status 3 10 ''accepted'' 0 example_db) example_db = example_db
   \<and> track_order 3 10 example_db = Inl Forbidden
   \<and> \<not> isl (track_order 2 10 example_db)"
proof -
  let ?ord = "\<lparr>o_id = 10, o_client_id = 4, o_store_id = 5, o_deliverer_id = None,
       o_status = ''pending'', o_delivery_address = ''Rua A 1'', o_notes = None, o_updated_at = 0\<rparr>"
  let ?u3 = "\<lparr>u_id = 3, user_type = ''store'', u_is_active = True\<rparr>"
  let ?u2 = "\<lparr>u_id = 2, user_type = ''store'', u_is_active = True\<rparr>"
  have ord: "get_order example_db 10 = Some ?ord"
    by (simp add: example_db_def example_orders_def get_order_def)
  have u3: "get_user example_db 3 = Some ?u3"
    by (simp add: example_db_def get_user_def)
  have u2: "get_user example_db 2 = Some ?u2"
    by (simp add: example_db_def get_user_def)
  have n3: "\<not> owner_or_admin example_db ?u3 3 ?ord" "\<not> placing_client ?u3 3 ?ord"
    by (simp_all add: owner_or_admin_def placing_client_def store_of_user_def example_db_def)
  have y2: "owner_or_admin example_db ?u2 2 ?ord"
    by (simp add: owner_or_admin_def store_of_user_def example_db_def)
  show ?thesis
    using order_access_gated [OF ord u3, of "''accepted''" 0]
      order_access_gated [OF ord u2, of "''accepted''" 0] n3 y2
    by simp
qed

text \<open>
  The claim as stated, with the same rule for reading as for updating, fails:
  user 4 is the client of order 13, is none of administrator, owning store or
  assigned deliverer, and reads the tracking data of the order; its status
  update is refused.
\<close>

theorem tracking_access_client_counterexample:
  "map_option user_type (get_user example_db 4) = Some ''client''
   \<and> map_option o_client_id (get_order example_db 13) = Some 4
   \<and> \<not> isl (track_order 4 13 example_db)
   \<and> update_order_status 4 13 ''delivered'' 0 example_db = Inl Forbidden"
  by (simp add: track_order_def has_access_def update_order_status_def has_permission_def
      get_user_def get_order_def example_db_def example_orders_def)

section \<open>The delivery fee\<close>

text \<open>
  On a table with a primary key, looking a city up by its key and then testing
  that it is active finds the active city of that key.
\<close>

lemma find_city_active:
  assumes "distinct (map c_id xs)"
  shows "find (\<lambda>x. c_id x = c \<and> c_is_active x) xs
           = (case find (\<lambda>x. c_id x = c) xs of
                None \<Rightarrow> None
              | Some y \<Rightarrow> if c_is_active y then Some y else None)"
  using assms
proof (induction xs)
  case Nil
  then show ?case by simp
next
  case (Cons x xs)
  show ?case
  proof (cases "c_id x = c")
    case True
    from Cons.prems have "c_id x \<notin> c_id ` set xs" by simp
    then have "\<forall>y\<in>set xs. c_id y \<noteq> c_id x" by (metis imageI)
    with True have "\<forall>y\<in>set xs. c_id y \<noteq> c" by simp
    then have "find (\<lambda>x. c_id x = c \<and> c_is_active x) xs = None"
      by (auto simp: find_None_iff)
    with True show ?thesis by simp
  next
    case False
    with Cons show ?thesis by simp
  qed
qed

lemma rate_refines_contract:
  assumes "city_keys_ok db"
  shows "(case city_id of
            None \<Rightarrow> get_platform_setting db ''default_delivery_fee_per_km'' 2.0
          | Some c \<Rightarrow>
              if c = 0 then get_platform_setting db ''default_delivery_fee_per_km'' 2.0
              else (case get_city db c of
                 Some city \<Rightarrow>
                   if c_is_active city then c_delivery_fee_per_km city
                   else get_platform_setting db ''default_delivery_fee_per_km'' 2.0
               | None \<Rightarrow> get_platform_setting db ''default_delivery_fee_per_km'' 2.0))
         = contract_rate db city_id"
proof (cases city_id)
  case None
  then show ?thesis by (simp add: contract_rate_def active_city_override_def)
next
  case (Some c)
  have d: "distinct (map c_id (allowed_cities db))"
    and z: "\<forall>y\<in>set (allowed_cities db). c_id y \<noteq> 0"
    using assms by (auto simp: city_keys_ok_def)
  show ?thesis
  proof (cases "c = 0")
    case True
    have "find (\<lambda>x. c_id x = 0 \<and> c_is_active x) (allowed_cities db) = None"
      using z by (auto simp: find_None_iff)
    with Some True show ?thesis by (simp add: contract_rate_def active_city_override_def)
  next
    case False
    with Some show ?thesis
      by (simp add: contract_rate_def active_city_override_def get_city_def
          find_city_active [OF d] split: option.splits)
  qed
qed



section \<open>The active location of a deliverer\<close>

text \<open>
  After the active rows of a deliverer are switched off, that deliverer has no
  active row and the others have the ones they had.
\<close>

lemma active_after_deactivation:
  "filter (\<lambda>l. l_deliverer_id l = uid \<and> l_is_active l)
     (map (\<lambda>l. if l_deliverer_id l = user_id \<and> l_is_active l
               then l\<lparr>l_is_active := False\<rparr> else l) locs)
   = (if uid = user_id then []
      else filter (\<lambda>l. l_deliverer_id l = uid \<and> l_is_active l) locs)"
  by (induction locs) auto

lemma active_rows_after_update:
  assumes "update_deliverer_location user_id data now db = Inr db'"
  shows "length (active_rows db' uid)
           = (if uid = user_id then 1 else length (active_rows db uid))"
  using assms unfolding update_deliverer_location_success
  by (auto simp: active_rows_def active_after_deactivation)

lemma location_step_keeps_single_active:
  assumes "\<forall>uid. length (active_rows db uid) \<le> 1"
  shows "\<forall>uid. length (active_rows (location_step c db) uid) \<le> 1"
proof (cases c)
  case (fields user_id data now)
  show ?thesis
  proof (cases "update_deliverer_location user_id data now db")
    case (Inl e)
    with fields assms show ?thesis by (simp add: location_step_def)
  next
    case (Inr db')
    with fields assms show ?thesis
      by (simp add: location_step_def active_rows_after_update [OF Inr])
  qed
qed

lemma run_location_updates_keeps_single_active:
  "\<forall>uid. length (active_rows db uid) \<le> 1 \<Longrightarrow>
   \<forall>uid. length (active_rows (run_location_updates cs db) uid) \<le> 1"
  unfolding run_location_updates_def
proof (induction cs arbitrary: db)
  case Nil
  then show ?case by simp
next
  case (Cons c cs)
  from Cons.prems have "\<forall>uid. length (active_rows (location_step c db) uid) \<le> 1"
    by (rule location_step_keeps_single_active)
  then show ?case using Cons.IH by simp
qed

text \<open>
  Claim C7. If every deliverer has at most one active location row, then so it
  is after any sequence of location updates, by any callers, successful or not.
  A successful update leaves the caller with exactly one active row: the table
  grows by one row, the new row is the caller's and is active, the rows before
  it are the old ones with the caller's active rows switched off, and no row is
  deleted or otherwise changed.
\<close>

theorem location_single_active:
  assumes inv: "\<forall>uid. length (active_rows db uid) \<le> 1"
  shows "(\<forall>uid. length (active_rows (run_location_updates cs db) uid) \<le> 1)
       \<and> (\<forall>user_id data now db'.
            update_deliverer_location user_id data now db = Inr db'
            \<longrightarrow> length (active_rows db' user_id) = 1
                \<and> length (deliverer_locations db') = Suc (length (deliverer_locations db))
                \<and> butlast (deliverer_locations db')
                    = map (\<lambda>l. if l_deliverer_id l = user_id \<and> l_is_active l
                               then l\<lparr>l_is_active := False\<rparr> else l)
                          (deliverer_locations db)
                \<and> l_deliverer_id (last (deliverer_locations db')) = user_id
                \<and> l_is_active (last (deliverer_locations db'))
                \<and> map (\<lambda>l. l\<lparr>l_is_active := False\<rparr>) (butlast (deliverer_locations db'))
                    = map (\<lambda>l. l\<lparr>l_is_active := False\<rparr>) (deliverer_locations db))"
proof -
  have seq: "\<forall>uid. length (active_rows (run_location_updates cs db) uid) \<le> 1"
    using inv by (rule run_location_updates_keeps_single_active)
  have one: "\<forall>user_id data now db'.
            update_deliverer_location user_id data now db = Inr db'
            \<longrightarrow> length (active_rows db' user_id) = 1"
    by (simp add: active_rows_after_update)
  have hist: "\<forall>user_id data now db'.
            update_deliverer_location user_id data now db = Inr db'
            \<longrightarrow> length (deliverer_locations db') = Suc (length (deliverer_locations db))
                \<and> butlast (deliverer_locations db')
                    = map (\<lambda>l. if l_deliverer_id l = user_id \<and> l_is_active l
                               then l\<lparr>l_is_active := False\<rparr> else l)
                          (deliverer_locations db)
                \<and> l_deliverer_id (last (deliverer_locations db')) = user_id
                \<and> l_is_active (last (deliverer_locations db'))
                \<and> map (\<lambda>l. l\<lparr>l_is_active := False\<rparr>) (butlast (deliverer_locations db'))
                    = map (\<lambda>l. l\<lparr>l_is_active := False\<rparr>) (deliverer_locations db)"
    unfolding update_deliverer_location_success by auto
  show ?thesis using seq one hist by blast
qed

text \<open>
  From the empty table of the example: after two updates of deliverer 7 and one
  of deliverer 8, deliverer 7 has at most one active row, and exactly one after
  its first update.
\<close>

theorem location_single_active_witness:
  "length (active_rows
      (run_location_updates
         [(7, \<lparr>ld_latitude = Some 1, ld_longitude = Some 2, ld_accuracy = None,
               ld_speed = None, ld_heading = None\<rparr>, 0),
          (8, \<lparr>ld_latitude = Some 3, ld_longitude = Some 4, ld_accuracy = None,
               ld_speed = None, ld_heading = None\<rparr>, 1),
          (7, \<lparr>ld_latitude = Some 5, ld_longitude = Some 6, ld_accuracy = None,
               ld_speed = None, ld_heading = None\<rparr>, 2)]
         example_db) 7) \<le> 1
   \<and> length (active_rows
        (state_after (update_deliverer_location 7
           \<lparr>ld_latitude = Some 1, ld_longitude = Some 2, ld_accuracy = None,
            ld_speed = None, ld_heading = None\<rparr> 0 example_db) example_db) 7) = 1"
proof -
  have inv: "\<forall>uid. length (active_rows example_db uid) \<le> 1"
    by (simp add: active_rows_def example_db_def)
  have ok: "\<exists>db'. update_deliverer_location 7
           \<lparr>ld_latitude = Some 1, ld_longitude = Some 2, ld_accuracy = None,
            ld_speed = None, ld_heading = None\<rparr> 0 example_db = Inr db'"
    by (simp add: update_deliverer_location_def get_user_def deliverer_of_user_def
        example_db_def)
  show ?thesis
    using location_single_active [OF inv] ok by auto
qed

section \<open>The tracking rows of a location update\<close>

lemma calculate_distance_same_point: "calculate_distance lat lon lat lon = 0"
  by (simp add: calculate_distance_def radians_def atan2_def)

lemma tracking_row_fields:
  "t_order_id (tracking_row user_id lat lon now ord) = o_id ord"
  "t_deliverer_id (tracking_row user_id lat lon now ord) = user_id"
  "t_latitude (tracking_row user_id lat lon now ord) = lat"
  "t_longitude (tracking_row user_id lat lon now ord) = lon"
  "t_status (tracking_row user_id lat lon now ord) = ''in_transit''"
  "t_distance_remaining (tracking_row user_id lat lon now ord)
     = calculate_distance lat lon dest_lat dest_lon"
  "t_estimated_arrival (tracking_row user_id lat lon now ord)
     = estimate_arrival_time (calculate_distance lat lon dest_lat dest_lon) now"
  by (simp_all add: tracking_row_def Let_def)

text \<open>
  Claim C8, as the code has it. A location update by an online deliverer that
  carries a latitude and a longitude succeeds, whether or not the deliverer has
  orders in flight. It appends to the tracking table exactly one row for each
  order that is \<^verbatim>\<open>delivering\<close> and assigned to the caller, in the order of the
  table, and no row for any other order; each row has the status
  \<^verbatim>\<open>in_transit\<close>, the caller and the reported position, as remaining distance
  the Haversine distance from the reported position to the fixed example point
  \<open>(dest_lat, dest_lon)\<close> that the handler uses as destination of every order,
  and as estimated arrival the estimate for that distance. With no order in
  flight nothing is appended.
\<close>

theorem tracking_fan_out:
  assumes usr: "map_option user_type (get_user db user_id) = Some ''deliverer''"
    and on: "map_option is_online (deliverer_of_user db user_id) = Some True"
    and lat: "ld_latitude data = Some lat"
    and lon: "ld_longitude data = Some lon"
  shows "\<exists>db' fresh.
           update_deliverer_location user_id data now db = Inr db'
         \<and> order_trackings db' = order_trackings db @ fresh
         \<and> map t_order_id fresh
             = map o_id (filter (\<lambda>x. o_deliverer_id x = Some user_id
                                      \<and> o_status x = ''delivering'') (orders db))
         \<and> (\<forall>t\<in>set fresh.
               t_status t = ''in_transit'' \<and> t_deliverer_id t = user_id
             \<and> t_latitude t = lat \<and> t_longitude t = lon
             \<and> t_distance_remaining t = calculate_distance lat lon dest_lat dest_lon
             \<and> t_estimated_arrival t
                 = estimate_arrival_time (calculate_distance lat lon dest_lat dest_lon) now)
         \<and> (active_orders db user_id = [] \<longrightarrow> fresh = [])"
proof -
  let ?fresh = "map (tracking_row user_id lat lon now) (active_orders db user_id)"
  obtain db' where ok: "update_deliverer_location user_id data now db = Inr db'"
    using usr on lat lon by (auto simp: update_deliverer_location_def)
  then have tr: "order_trackings db' = order_trackings db @ ?fresh"
    using lat lon unfolding update_deliverer_location_success by auto
  have ids: "map t_order_id ?fresh
             = map o_id (filter (\<lambda>x. o_deliverer_id x = Some user_id
                                      \<and> o_status x = ''delivering'') (orders db))"
    by (simp add: active_orders_def tracking_row_fields comp_def)
  have rows: "\<forall>t\<in>set ?fresh.
               t_status t = ''in_transit'' \<and> t_deliverer_id t = user_id
             \<and> t_latitude t = lat \<and> t_longitude t = lon
             \<and> t_distance_remaining t = calculate_distance lat lon dest_lat dest_lon
             \<and> t_estimated_arrival t
                 = estimate_arrival_time (calculate_distance lat lon dest_lat dest_lon) now"
    by (auto simp: tracking_row_fields)
  have empty: "active_orders db user_id = [] \<longrightarrow> ?fresh = []"
    by simp
  show ?thesis using ok tr ids rows empty by blast
qed

text \<open>
  Deliverer 7 carries the orders 13 and 14 and gets one row for each; deliverer
  8 carries none, and its update succeeds and appends nothing.
\<close>

theorem tracking_fan_out_witness:
  "map t_order_id
     (order_trackings
        (state_after (update_deliverer_location 7
           \<lparr>ld_latitude = Some 1, ld_longitude = Some 2, ld_accuracy = None,
            ld_speed = None, ld_heading = None\<rparr> 0 example_db) example_db)) = [13, 14]
   \<and> \<not> isl (update_deliverer_location 8
           \<lparr>ld_latitude = Some 1, ld_longitude = Some 2, ld_accuracy = None,
            ld_speed = None, ld_heading = None\<rparr> 0 example_db)
   \<and> order_trackings
        (state_after (update_deliverer_location 8
           \<lparr>ld_latitude = Some 1, ld_longitude = Some 2, ld_accuracy = None,
            ld_speed = None, ld_heading = None\<rparr> 0 example_db) example_db) = []"
proof -
  let ?data = "\<lparr>ld_latitude = Some 1, ld_longitude = Some 2, ld_accuracy = None,
            ld_speed = None, ld_heading = None\<rparr>"
  have u7: "map_option user_type (get_user example_db 7) = Some ''deliverer''"
    and u8: "map_option user_type (get_user example_db 8) = Some ''deliverer''"
    by (simp_all add: get_user_def example_db_def)
  have o7: "map_option is_online (deliverer_of_user example_db 7) = Some True"
    and o8: "map_option is_online (deliverer_of_user example_db 8) = Some True"
    by (simp_all add: deliverer_of_user_def example_db_def)
  have old: "order_trackings example_db = []"
    by (simp add: example_db_def)
  have a7: "map o_id (filter (\<lambda>x. o_deliverer_id x = Some 7 \<and> o_status x = ''delivering'')
                        (orders example_db)) = [13, 14]"
    by (simp add: example_db_def example_orders_def)
  have a8: "active_orders example_db 8 = []"
    by (simp add: active_orders_def example_db_def example_orders_def)
  have lat: "ld_latitude ?data = Some 1" and lon: "ld_longitude ?data = Some 2"
    by simp_all
  from tracking_fan_out [OF u7 o7 lat lon, of 0]
  have p7: "map t_order_id
     (order_trackings (state_after (update_deliverer_location 7 ?data 0 example_db) example_db))
      = [13, 14]"
    using old a7 by auto
  from tracking_fan_out [OF u8 o8 lat lon, of 0]
  have p8: "\<not> isl (update_deliverer_location 8 ?data 0 example_db)
     \<and> order_trackings
        (state_after (update_deliverer_location 8 ?data 0 example_db) example_db) = []"
    using old a8 by auto
  show ?thesis using p7 p8 by simp
qed

text \<open>
  The claim as stated, with the distance to the destination of each order,
  fails. The orders 13 and 14 go to two different addresses; when deliverer 7
  reports the example point itself, both get the remaining distance \<open>0\<close>,
  which is the distance to one place at most.
\<close>

theorem tracking_destination_counterexample:
  "map o_id (active_orders example_db 7) = [13, 14]
   \<and> map o_delivery_address (active_orders example_db 7) = [''Rua A 1'', ''Avenida B 2'']
   \<and> map t_order_id
        (order_trackings
           (state_after (update_deliverer_location 7
              \<lparr>ld_latitude = Some dest_lat, ld_longitude = Some dest_lon, ld_accuracy = None,
               ld_speed = None, ld_heading = None\<rparr> 0 example_db) example_db)) = [13, 14]
   \<and> map t_distance_remaining
        (order_trackings
           (state_after (update_deliverer_location 7
              \<lparr>ld_latitude = Some dest_lat, ld_longitude = Some dest_lon, ld_accuracy = None,
               ld_speed = None, ld_heading = None\<rparr> 0 example_db) example_db)) = [0, 0]"
  by (simp add: update_deliverer_location_def get_user_def deliverer_of_user_def
      active_orders_def tracking_row_fields calculate_distance_same_point
      example_db_def example_orders_def)

section \<open>The path of statuses of an order\<close>

text \<open>Every transition of the table is an edge of the lifecycle graph.\<close>

lemma spec_table_graph_edge:
  "new_status \<in> spec_table role cur \<Longrightarrow> graph_edge cur new_status"
  by (auto simp: spec_table_def spec_store_table_def spec_deliverer_table_def graph_edge_def
        active_status_def split: if_splits)

lemma lifecycle_step_refl: "lifecycle_step a a"
  by (cases a) (simp_all add: lifecycle_step_def)

text \<open>When the writers of a status succeed, and what they write.\<close>

lemma update_order_status_success:
  "update_order_status user_id order_id new_status now db = Inr db' \<longleftrightarrow>
     (\<exists>ord usr. get_order db order_id = Some ord \<and> new_status \<noteq> []
        \<and> get_user db user_id = Some usr \<and> has_permission db usr user_id ord
        \<and> new_status \<in> set (current_status_transitions (user_type usr) (o_status ord))
        \<and> db' = update_order order_id
                  (\<lambda>x. x\<lparr>o_status := new_status, o_updated_at := now\<rparr>) db)"
  by (auto simp: update_order_status_def split: option.splits)

lemma delete_deliverer_success:
  "delete_deliverer caller deliverer_id now db = Inr db' \<longleftrightarrow>
     (\<exists>dlv usr. admin_required db caller \<and> get_deliverer db deliverer_id = Some dlv
        \<and> get_user db (d_user_id dlv) = Some usr
        \<and> \<not> (u_id usr \<in> set (required_user_refs db)
              \<or> u_id usr \<in> set (map s_user_id (stores db))
              \<or> u_id usr \<in> set (map d_user_id
                                    (filter (\<lambda>d. d_id d \<noteq> d_id dlv) (deliverers db))))
        \<and> db' = release_user (u_id usr) now
                  (db\<lparr>orders :=
                       map (\<lambda>x. if o_deliverer_id x = Some (d_user_id dlv)
                                   \<and> o_status x \<in> set [''accepted'', ''preparing'', ''ready'', ''delivering'']
                                 then x\<lparr>o_deliverer_id := None, o_status := ''pending'',
                                        o_updated_at := now\<rparr>
                                 else x) (orders db),
                     deliverers := filter (\<lambda>d. d_id d \<noteq> d_id dlv) (deliverers db),
                     users := filter (\<lambda>u. u_id u \<noteq> u_id usr) (users db)\<rparr>))"
  by (auto simp: delete_deliverer_def split: option.splits)

lemma delete_store_success:
  "delete_store caller store_id now db = Inr db' \<longleftrightarrow>
     (\<exists>st usr. admin_required db caller \<and> get_store db store_id = Some st
        \<and> get_user db (s_user_id st) = Some usr
        \<and> \<not> (s_id st \<in> set (map o_store_id (orders db))
              \<or> s_id st \<in> set (map p_store_id (products db))
              \<or> u_id usr \<in> set (required_user_refs db)
              \<or> u_id usr \<in> set (map s_user_id
                                    (filter (\<lambda>s. s_id s \<noteq> s_id st) (stores db)))
              \<or> u_id usr \<in> set (map d_user_id (deliverers db)))
        \<and> db' = release_user (u_id usr) now
                  (db\<lparr>products :=
                       map (\<lambda>p. if p_store_id p = s_id st then p\<lparr>p_is_active := False\<rparr>
                                 else p) (products db),
                     orders :=
                       map (\<lambda>x. if o_store_id x = s_id st \<and> o_status x = ''pending''
                                 then x\<lparr>o_status := ''cancelled'', o_updated_at := now\<rparr>
                                 else x) (orders db),
                     stores := filter (\<lambda>s. s_id s \<noteq> s_id st) (stores db),
                     users := filter (\<lambda>u. u_id u \<noteq> u_id usr) (users db)\<rparr>))"
  by (auto simp: delete_store_def split: option.splits)

text \<open>
  A successful deletion rewrites the table of orders row by row, keeping the
  keys; a deleted deliverer leaves each status as it was or sends it back to
  pending, a deleted store leaves it as it was or cancels a pending order.
\<close>

lemma delete_deliverer_orders:
  assumes "delete_deliverer caller deliverer_id now db = Inr db'"
  shows "\<exists>f. orders db' = map f (orders db)
           \<and> (\<forall>x. o_id (f x) = o_id x
                 \<and> (o_status (f x) = o_status x \<or> requeue_edge (o_status x) (o_status (f x))))"
proof -
  from assms obtain dlv :: deliverer and usr :: user where
    db': "db' = release_user (u_id usr) now
                  (db\<lparr>orders :=
                       map (\<lambda>x. if o_deliverer_id x = Some (d_user_id dlv)
                                   \<and> o_status x \<in> set [''accepted'', ''preparing'', ''ready'', ''delivering'']
                                 then x\<lparr>o_deliverer_id := None, o_status := ''pending'',
                                        o_updated_at := now\<rparr>
                                 else x) (orders db),
                     deliverers := filter (\<lambda>d. d_id d \<noteq> d_id dlv) (deliverers db),
                     users := filter (\<lambda>u. u_id u \<noteq> u_id usr) (users db)\<rparr>)"
    unfolding delete_deliverer_success by blast
  let ?f = "\<lambda>x. if o_deliverer_id x = Some (d_user_id dlv)
                   \<and> o_status x \<in> set [''accepted'', ''preparing'', ''ready'', ''delivering'']
                 then x\<lparr>o_deliverer_id := None, o_status := ''pending'', o_updated_at := now\<rparr>
                 else x"
  let ?g = "\<lambda>x. if o_deliverer_id x = Some (u_id usr)
                 then x\<lparr>o_deliverer_id := None, o_updated_at := now\<rparr> else x"
  have m: "orders db' = map (\<lambda>x. ?g (?f x)) (orders db)"
    by (simp add: db' release_user_def comp_def)
  have k: "\<forall>x. o_id (?g (?f x)) = o_id x
             \<and> (o_status (?g (?f x)) = o_status x
                 \<or> requeue_edge (o_status x) (o_status (?g (?f x))))"
    by (simp add: requeue_edge_def)
  show ?thesis
    by (rule exI [of _ "\<lambda>x. ?g (?f x)"]) (use m k in blast)
qed

lemma delete_store_orders:
  assumes "delete_store caller store_id now db = Inr db'"
  shows "\<exists>f. orders db' = map f (orders db)
           \<and> (\<forall>x. o_id (f x) = o_id x
                 \<and> (o_status (f x) = o_status x
                     \<or> o_status x = ''pending'' \<and> o_status (f x) = ''cancelled''))"
proof -
  from assms obtain st :: store and usr :: user where
    db': "db' = release_user (u_id usr) now
                  (db\<lparr>products :=
                       map (\<lambda>p. if p_store_id p = s_id st then p\<lparr>p_is_active := False\<rparr>
                                 else p) (products db),
                     orders :=
                       map (\<lambda>x. if o_store_id x = s_id st \<and> o_status x = ''pending''
                                 then x\<lparr>o_status := ''cancelled'', o_updated_at := now\<rparr>
                                 else x) (orders db),
                     stores := filter (\<lambda>s. s_id s \<noteq> s_id st) (stores db),
                     users := filter (\<lambda>u. u_id u \<noteq> u_id usr) (users db)\<rparr>)"
    unfolding delete_store_success by blast
  let ?f = "\<lambda>x. if o_store_id x = s_id st \<and> o_status x = ''pending''
                 then x\<lparr>o_status := ''cancelled'', o_updated_at := now\<rparr> else x"
  let ?g = "\<lambda>x. if o_deliverer_id x = Some (u_id usr)
                 then x\<lparr>o_deliverer_id := None, o_updated_at := now\<rparr> else x"
  have m: "orders db' = map (\<lambda>x. ?g (?f x)) (orders db)"
    by (simp add: db' release_user_def comp_def)
  have k: "\<forall>x. o_id (?g (?f x)) = o_id x
             \<and> (o_status (?g (?f x)) = o_status x
                 \<or> o_status x = ''pending'' \<and> o_status (?g (?f x)) = ''cancelled'')"
    by simp
  show ?thesis
    by (rule exI [of _ "\<lambda>x. ?g (?f x)"]) (use m k in blast)
qed

text \<open>Each operation moves the status of each order along the extended graph.\<close>

lemma update_order_status_lifecycle:
  "lifecycle_step (order_status db i)
     (order_status (state_after (update_order_status user_id order_id new_status now db) db) i)"
proof (cases "update_order_status user_id order_id new_status now db")
  case (Inl e)
  then show ?thesis by (simp add: lifecycle_step_refl)
next
  case (Inr db')
  then obtain ord and usr :: user where ord: "get_order db order_id = Some ord"
      and tab: "new_status \<in> set (current_status_transitions (user_type usr) (o_status ord))"
      and db': "db' = update_order order_id
                        (\<lambda>x. x\<lparr>o_status := new_status, o_updated_at := now\<rparr>) db"
    unfolding update_order_status_success by blast
  from tab have edge: "graph_edge (o_status ord) new_status"
    by (simp add: table_refines_spec spec_table_graph_edge)
  show ?thesis
  proof (cases "i = order_id")
    case True
    with Inr db' ord edge show ?thesis
      by (simp add: order_status_def get_order_update_order lifecycle_step_def)
  next
    case False
    with Inr db' show ?thesis
      by (simp add: order_status_def get_order_update_order lifecycle_step_refl)
  qed
qed

lemma accept_delivery_lifecycle:
  "lifecycle_step (order_status db i)
     (order_status (state_after (accept_delivery user_id order_id now db) db) i)"
proof (cases "accept_delivery user_id order_id now db")
  case (Inl e)
  then show ?thesis by (simp add: lifecycle_step_refl)
next
  case (Inr db')
  then obtain ord where ord: "get_order db order_id = Some ord"
      and rdy: "o_status ord = ''ready''"
      and db': "db' = update_order order_id
                  (\<lambda>x. x\<lparr>o_deliverer_id := Some user_id, o_status := ''delivering'',
                         o_updated_at := now\<rparr>) db"
    unfolding accept_delivery_success by blast
  show ?thesis
  proof (cases "i = order_id")
    case True
    with Inr db' ord rdy show ?thesis
      by (simp add: order_status_def get_order_update_order lifecycle_step_def graph_edge_def)
  next
    case False
    with Inr db' show ?thesis
      by (simp add: order_status_def get_order_update_order lifecycle_step_refl)
  qed
qed

lemma get_order_mapped:
  assumes "orders db' = map f (orders db)" and "\<And>x. o_id (f x) = o_id x"
  shows "get_order db' i = map_option f (get_order db i)"
  using assms by (simp add: get_order_def find_map_o_id)

lemma delete_deliverer_lifecycle:
  "lifecycle_step (order_status db i)
     (order_status (state_after (delete_deliverer caller deliverer_id now db) db) i)"
proof (cases "delete_deliverer caller deliverer_id now db")
  case (Inl e)
  then show ?thesis by (simp add: lifecycle_step_refl)
next
  case (Inr db')
  from delete_deliverer_orders [OF Inr] obtain f where
    m: "orders db' = map f (orders db)" and k: "\<And>x. o_id (f x) = o_id x"
    and e: "\<And>x. o_status (f x) = o_status x \<or> requeue_edge (o_status x) (o_status (f x))"
    by blast
  show ?thesis
  proof (cases "get_order db i")
    case None
    then show ?thesis
      unfolding Inr state_after_Inr order_status_def get_order_mapped [OF m k]
      by (simp add: lifecycle_step_def)
  next
    case (Some a)
    then show ?thesis
      using e [of a]
      unfolding Inr state_after_Inr order_status_def get_order_mapped [OF m k]
      by (auto simp: lifecycle_step_def)
  qed
qed

lemma delete_store_lifecycle:
  "lifecycle_step (order_status db i)
     (order_status (state_after (delete_store caller store_id now db) db) i)"
proof (cases "delete_store caller store_id now db")
  case (Inl e)
  then show ?thesis by (simp add: lifecycle_step_refl)
next
  case (Inr db')
  from delete_store_orders [OF Inr] obtain f where
    m: "orders db' = map f (orders db)" and k: "\<And>x. o_id (f x) = o_id x"
    and e: "\<And>x. o_status (f x) = o_status x
                 \<or> o_status x = ''pending'' \<and> o_status (f x) = ''cancelled''"
    by blast
  show ?thesis
  proof (cases "get_order db i")
    case None
    then show ?thesis
      unfolding Inr state_after_Inr order_status_def get_order_mapped [OF m k]
      by (simp add: lifecycle_step_def)
  next
    case (Some a)
    then show ?thesis
      using e [of a]
      unfolding Inr state_after_Inr order_status_def get_order_mapped [OF m k]
      by (auto simp: lifecycle_step_def graph_edge_def active_status_def)
  qed
qed

lemma step_lifecycle: "lifecycle_step (order_status db i) (order_status (step oper db) i)"
  by (cases oper)
     (simp_all add: step_def update_order_status_lifecycle accept_delivery_lifecycle
        delete_deliverer_lifecycle delete_store_lifecycle)

lemma states_hd: "hd (states opers db) = db" and states_nonempty: "states opers db \<noteq> []"
  by (cases opers; simp)+

lemma status_history_path:
  "successively lifecycle_step (status_history i opers db)"
  unfolding status_history_def
proof (induction opers arbitrary: db)
  case Nil
  then show ?case by simp
next
  case (Cons oper opers)
  have "hd (map (\<lambda>d. order_status d i) (states opers (step oper db)))
          = order_status (step oper db) i"
    by (simp add: hd_map states_nonempty states_hd)
  then show ?case
    using Cons.IH [of "step oper db"] step_lifecycle [of db i oper]
    by (simp add: successively_Cons)
qed





end
